theory Spec2Isabelle
  imports Main
begin

section \<open>Python string primitives used by \<open>manic/repository_git.py\<close>\<close>

text \<open>
  A Python \<open>str\<close> is modelled as a \<open>string\<close> whose characters are read as code points
  below 256, with the Python 3 meaning of whitespace, line boundaries and word characters
  on that range. Git prints reference names, hashes and remote names in ASCII.
\<close>

definition is_space :: "char \<Rightarrow> bool" where
  \<comment> \<open>\<open>str.isspace\<close>, also the class \<open>\s\<close> of \<open>re\<close>\<close>
  "is_space c =
     (let n = (of_char c :: nat)
      in n = 32 \<or> (9 \<le> n \<and> n \<le> 13) \<or> (28 \<le> n \<and> n \<le> 31) \<or> n = 133 \<or> n = 160)"

definition is_linebreak :: "char \<Rightarrow> bool" where
  \<comment> \<open>the line boundaries of \<open>str.splitlines\<close>\<close>
  "is_linebreak c =
     (let n = (of_char c :: nat)
      in (10 \<le> n \<and> n \<le> 13) \<or> (28 \<le> n \<and> n \<le> 30) \<or> n = 133)"

definition is_word :: "char \<Rightarrow> bool" where
  \<comment> \<open>the class \<open>\w\<close> of \<open>re\<close>: alphanumeric or underscore\<close>
  "is_word c =
     (let n = (of_char c :: nat)
      in n = 95 \<or> (48 \<le> n \<and> n \<le> 57) \<or> (65 \<le> n \<and> n \<le> 90) \<or> (97 \<le> n \<and> n \<le> 122)
         \<or> n = 170 \<or> n = 178 \<or> n = 179 \<or> n = 181 \<or> n = 185 \<or> n = 186
         \<or> (188 \<le> n \<and> n \<le> 190) \<or> (192 \<le> n \<and> n \<le> 214)
         \<or> (216 \<le> n \<and> n \<le> 246) \<or> (248 \<le> n \<and> n \<le> 255))"

definition ref_class :: "char \<Rightarrow> bool" where
  \<comment> \<open>the class \<open>[\w\-./]\<close>\<close>
  "ref_class c = (is_word c \<or> c = CHR ''-'' \<or> c = CHR ''.'' \<or> c = CHR ''/'')"

definition track_class :: "char \<Rightarrow> bool" where
  \<comment> \<open>the class \<open>[\w\s,]\<close>\<close>
  "track_class c = (is_word c \<or> is_space c \<or> c = CHR '','')"

definition py_strip :: "string \<Rightarrow> string" where
  \<comment> \<open>\<open>s.strip()\<close>\<close>
  "py_strip s = rev (dropWhile is_space (rev (dropWhile is_space s)))"

definition strip_chars :: "string \<Rightarrow> string \<Rightarrow> string" where
  \<comment> \<open>\<open>s.strip(cs)\<close>\<close>
  "strip_chars cs s =
     rev (dropWhile (\<lambda>c. c \<in> set cs) (rev (dropWhile (\<lambda>c. c \<in> set cs) s)))"

definition startswith :: "string \<Rightarrow> string \<Rightarrow> bool" where
  \<comment> \<open>\<open>s.startswith(p)\<close>\<close>
  "startswith s p = (take (length p) s = p)"

fun contains :: "string \<Rightarrow> string \<Rightarrow> bool" where
  \<comment> \<open>\<open>sub in s\<close>\<close>
  "contains sub [] = (sub = [])"
| "contains sub (c # cs) = (startswith (c # cs) sub \<or> contains sub cs)"

fun splitlines_from :: "string \<Rightarrow> string \<Rightarrow> string list" where
  \<comment> \<open>\<open>s.splitlines()\<close>; the first argument is the current line, reversed\<close>
  "splitlines_from cur [] = (if cur = [] then [] else [rev cur])"
| "splitlines_from cur (c # cs) =
     (if c = CHR 0x0D then
        (case cs of
           [] \<Rightarrow> [rev cur]
         | d # ds \<Rightarrow>
             if d = CHR 0x0A then rev cur # splitlines_from [] ds
             else rev cur # splitlines_from [] (d # ds))
      else if is_linebreak c then rev cur # splitlines_from [] cs
      else splitlines_from (c # cur) cs)"

definition splitlines :: "string \<Rightarrow> string list" where
  "splitlines s = splitlines_from [] s"

fun py_split_from :: "string \<Rightarrow> string \<Rightarrow> string list" where
  \<comment> \<open>\<open>s.split()\<close>: the maximal runs of characters that are not whitespace\<close>
  "py_split_from cur [] = (if cur = [] then [] else [rev cur])"
| "py_split_from cur (c # cs) =
     (if is_space c then
        (if cur = [] then py_split_from [] cs else rev cur # py_split_from [] cs)
      else py_split_from (c # cur) cs)"

definition py_split :: "string \<Rightarrow> string list" where
  "py_split s = py_split_from [] s"

fun split_on_from :: "char \<Rightarrow> string \<Rightarrow> string \<Rightarrow> string list" where
  \<comment> \<open>\<open>s.split(sep)\<close> for a separator of one character: never an empty list\<close>
  "split_on_from sep cur [] = [rev cur]"
| "split_on_from sep cur (c # cs) =
     (if c = sep then rev cur # split_on_from sep [] cs
      else split_on_from sep (c # cur) cs)"

definition split_on :: "char \<Rightarrow> string \<Rightarrow> string list" where
  "split_on sep s = split_on_from sep [] s"

definition dq :: string where
  \<comment> \<open>the double quote\<close>
  "dq = [CHR 0x22]"

definition nl :: string where
  \<comment> \<open>the newline\<close>
  "nl = [CHR 0x0A]"

section \<open>The three regular expressions\<close>

text \<open>
  Each pattern is matched as \<open>re\<close> does: \<open>search\<close> tries the start positions from left
  to right and returns the first match; at a position the elements are tried greedily.
  In these patterns every \<open>+\<close> is followed by an element that no character of its class
  can start, so giving characters back never produces a match and the longest run is the
  only candidate. The optional group is tried first and skipped when the rest fails.
\<close>

definition lit :: "string \<Rightarrow> string \<Rightarrow> string option" where
  \<comment> \<open>a literal: the rest of the text behind it\<close>
  "lit p s = (if startswith s p then Some (drop (length p) s) else None)"

definition plus :: "(char \<Rightarrow> bool) \<Rightarrow> string \<Rightarrow> (string \<times> string) option" where
  \<comment> \<open>\<open>[class]+\<close>: the longest non-empty run, and the rest\<close>
  "plus p s = (if takeWhile p s = [] then None else Some (takeWhile p s, dropWhile p s))"

fun re_search :: "(string \<Rightarrow> 'a option) \<Rightarrow> string \<Rightarrow> 'a option" where
  \<comment> \<open>\<open>pattern.search\<close>: leftmost start position first\<close>
  "re_search m [] = m []"
| "re_search m (c # cs) = (case m (c # cs) of Some x \<Rightarrow> Some x | None \<Rightarrow> re_search m cs)"

definition detached_head :: "(string \<Rightarrow> 'a option) \<Rightarrow> string \<Rightarrow> 'a option" where
  \<comment> \<open>\<open>\* \((?:[\w]+[\s]+)?\<close> followed by the rest \<open>k\<close> of the pattern\<close>
  "detached_head k s =
     (case lit ''* ('' s of
        None \<Rightarrow> None
      | Some r \<Rightarrow>
          (case (case plus is_word r of
                   None \<Rightarrow> None
                 | Some (w, r1) \<Rightarrow>
                     (case plus is_space r1 of None \<Rightarrow> None | Some (sp, r2) \<Rightarrow> k r2)) of
             Some x \<Rightarrow> Some x
           | None \<Rightarrow> k r))"

definition detached_at_tail :: "string \<Rightarrow> string option" where
  \<comment> \<open>\<open>detached at ([\w\-./]+)\)\<close>, giving group 1\<close>
  "detached_at_tail t =
     (case lit ''detached at '' t of
        None \<Rightarrow> None
      | Some u \<Rightarrow>
          (case plus ref_class u of
             None \<Rightarrow> None
           | Some (x, v) \<Rightarrow> (case lit '')'' v of None \<Rightarrow> None | Some _ \<Rightarrow> Some x)))"

definition detached_from_tail :: "string \<Rightarrow> string option" where
  \<comment> \<open>\<open>detached from [\w\-./]+\)[\s]+([\w]+)\<close>, giving group 1\<close>
  "detached_from_tail t =
     (case lit ''detached from '' t of
        None \<Rightarrow> None
      | Some u \<Rightarrow>
          (case plus ref_class u of
             None \<Rightarrow> None
           | Some (x, v) \<Rightarrow>
               (case lit '')'' v of
                  None \<Rightarrow> None
                | Some v1 \<Rightarrow>
                    (case plus is_space v1 of
                       None \<Rightarrow> None
                     | Some (sp, v2) \<Rightarrow>
                         (case plus is_word v2 of None \<Rightarrow> None | Some (h, _) \<Rightarrow> Some h)))))"

definition RE_DETACHED_AT :: "string \<Rightarrow> string option" where
  \<comment> \<open>\<open>RE_DETACHED_AT.search(ref)\<close>: group 1 of the match, \<open>None\<close> when there is none\<close>
  "RE_DETACHED_AT ref = re_search (detached_head detached_at_tail) ref"

definition RE_DETACHED_FROM :: "string \<Rightarrow> string option" where
  "RE_DETACHED_FROM ref = re_search (detached_head detached_from_tail) ref"

definition tracking_counts :: "string \<Rightarrow> string option" where
  \<comment> \<open>the optional group \<open>(?::[\s]+[\w\s,]+)\<close>: a colon, then a run of \<open>[\w\s,]\<close> of
      at least two characters that starts with whitespace; the rest behind the run\<close>
  "tracking_counts r =
     (case lit '':'' r of
        None \<Rightarrow> None
      | Some t \<Rightarrow>
          (case takeWhile track_class t of
             [] \<Rightarrow> None
           | c # run \<Rightarrow>
               if is_space c \<and> run \<noteq> [] then Some (dropWhile track_class t) else None))"

definition tracking_at :: "string \<Rightarrow> string option" where
  \<comment> \<open>\<open>\[([\w\-./]+)(?::[\s]+[\w\s,]+)?\]\<close> at one position, giving group 1\<close>
  "tracking_at s =
     (case lit ''['' s of
        None \<Rightarrow> None
      | Some r0 \<Rightarrow>
          (case plus ref_class r0 of
             None \<Rightarrow> None
           | Some (x, r) \<Rightarrow>
               if (case tracking_counts r of None \<Rightarrow> False | Some r' \<Rightarrow> startswith r' '']'')
               then Some x
               else if startswith r '']'' then Some x
               else None))"

definition RE_TRACKING :: "string \<Rightarrow> string option" where
  "RE_TRACKING ref = re_search tracking_at ref"

section \<open>Errors, constants and the head state parser\<close>

datatype error =
    Fatal string  \<comment> \<open>\<open>fatal_error(msg)\<close>\<close>
  | IndexError    \<comment> \<open>a list index out of range\<close>
  | OSError       \<comment> \<open>\<open>os.chdir\<close> to a path that is not a directory\<close>

text \<open>
  Modelled from the spec: \<open>utils.fatal_error\<close> is not among the sources. By section 6
  a fatal error is the termination of the process with a descriptive message, so a call
  \<open>fatal_error(msg)\<close> is the result \<open>Inl (Fatal msg)\<close> and nothing behind it runs.
\<close>

definition EMPTY_STR :: string where
  \<comment> \<open>Modelled from the spec: \<open>global_constants.EMPTY_STR\<close>, the empty result of section 4.1\<close>
  "EMPTY_STR = ''''"

fun first_active :: "string list \<Rightarrow> string" where
  \<comment> \<open>the loop of \<open>_current_ref\<close>: the first line that starts with the asterisk\<close>
  "first_active [] = ''''"
| "first_active (line # lines) =
     (if startswith line ''*'' then line else first_active lines)"

definition dev_error :: "string \<Rightarrow> string \<Rightarrow> string \<Rightarrow> string" where
  \<comment> \<open>\<open>msg += '\nref:\n{0}\ngit_output\n{1}\n'.format(ref, git_output)\<close>\<close>
  "dev_error msg ref git_output =
     msg @ nl @ ''ref:'' @ nl @ ref @ nl @ ''git_output'' @ nl @ git_output @ nl"

definition current_ref_parse :: "string \<Rightarrow> error + string" where
  \<comment> \<open>\<open>_current_ref\<close> behind its call of \<open>_git_branch_vv\<close>\<close>
  "current_ref_parse git_output =
     (let ref = first_active (splitlines git_output)
      in if ref = [] then Inr (py_strip EMPTY_STR)
         else if contains ''detached at'' ref then
           (case RE_DETACHED_AT ref of
              Some g \<Rightarrow> Inr (py_strip g)
            | None \<Rightarrow>
                Inl (Fatal (dev_error
                  (''DEV_ERROR: regex to detect '' @ dq @ ''detached at'' @ dq
                     @ '' head state failed!'') ref git_output)))
         else if contains ''detached from'' ref then
           (case RE_DETACHED_FROM ref of
              Some g \<Rightarrow> Inr (py_strip g)
            | None \<Rightarrow>
                Inl (Fatal (dev_error
                  (''DEV_ERROR: regex to detect '' @ dq @ ''detached from'' @ dq
                     @ '' head state failed!'') ref git_output)))
         else if contains ''['' ref then
           (case RE_TRACKING ref of
              Some g \<Rightarrow> Inr (py_strip g)
            | None \<Rightarrow>
                Inl (Fatal (dev_error
                  ''DEV_ERROR: regex to detect tracking branch failed.'' ref git_output)))
         else
           (case py_split ref of
              a # b # rest \<Rightarrow> Inr (py_strip b)
            | _ \<Rightarrow> Inl IndexError))"

section \<open>The command executor, the file system and the process state\<close>

type_synonym argv = "string list"

text \<open>
  Modelled from the spec: \<open>utils.execute_subprocess\<close> is not among the sources. It is the
  Command Executor Port of section 6: a command is run in the current working directory
  and gives an exit status and its output. The source keeps its git calls in two groups,
  "system call to git for information gathering" and "system call to git for sideffects
  modifying the working tree"; the port follows them: a \<open>query\<close> reads the world, an
  \<open>effect\<close> changes it. The world \<open>'w\<close> (the repositories and the file system) is left
  open. \<open>path_exists\<close> is \<open>os.path.exists\<close> and \<open>is_dir\<close> decides whether \<open>os.chdir\<close>
  succeeds; both see the world and the working directory.
\<close>

record 'w port =
  query :: "'w \<Rightarrow> string \<Rightarrow> argv \<Rightarrow> int \<times> string"
  effect :: "'w \<Rightarrow> string \<Rightarrow> argv \<Rightarrow> 'w"
  path_exists :: "'w \<Rightarrow> string \<Rightarrow> string \<Rightarrow> bool"
  is_dir :: "'w \<Rightarrow> string \<Rightarrow> string \<Rightarrow> bool"

text \<open>
  The helpers of \<open>utils\<close> and the constant of \<open>global_constants\<close> that the source
  imports and that are not among the sources are parameters.
\<close>

record utils =
  LOCAL_PATH_INDICATOR :: string
  is_remote_url :: "string \<Rightarrow> bool"
  split_remote_url :: "string \<Rightarrow> string"
  expand_local_url :: "string \<Rightarrow> string \<Rightarrow> string"

text \<open>
  Modelled from the spec: \<open>externals_status.ExternalStatus\<close> is not among the sources;
  section 3 gives its states.
\<close>

datatype status = STATUS_OK | MODEL_MODIFIED | STATUS_ERROR | UNKNOWN | DIRTY

record stat =
  sync_state :: status
  clean_state :: status
  current_version :: string
  expected_version :: string
  status_output :: string

text \<open>The fields \<open>_name\<close>, \<open>_url\<close>, \<open>_branch\<close>, \<open>_tag\<close> and \<open>_hash\<close> of a repository.\<close>

record repo =
  repo_name :: string
  repo_url :: string
  repo_branch :: string
  repo_tag :: string
  repo_hash :: string

text \<open>
  The state of the process: its working directory, the world behind the port, every
  command run so far (oldest first) and the status object \<open>stat\<close> that the status
  functions fill in.
\<close>

record 'w state =
  cwd :: string
  world :: 'w
  issued :: "argv list"
  stat :: stat

definition seq ::
  "(error + 'a) \<times> 's \<Rightarrow> ('a \<Rightarrow> 's \<Rightarrow> (error + 'b) \<times> 's) \<Rightarrow> (error + 'b) \<times> 's" where
  \<comment> \<open>run the rest unless the first part has raised\<close>
  "seq m f = (case m of (Inl e, s) \<Rightarrow> (Inl e, s) | (Inr a, s) \<Rightarrow> f a s)"

definition chdir :: "'w port \<Rightarrow> string \<Rightarrow> 'w state \<Rightarrow> (error + unit) \<times> 'w state" where
  \<comment> \<open>\<open>os.chdir(path)\<close>\<close>
  "chdir P path s =
     (if is_dir P (world s) (cwd s) path then (Inr (), s\<lparr>cwd := path\<rparr>)
      else (Inl OSError, s))"

definition os_path_join :: "string \<Rightarrow> string \<Rightarrow> string" where
  \<comment> \<open>\<open>os.path.join(a, b)\<close> of \<open>posixpath\<close>\<close>
  "os_path_join a b =
     (if startswith b ''/'' then b
      else if a = [] \<or> (a \<noteq> [] \<and> last a = CHR ''/'') then a @ b
      else a @ ''/'' @ b)"

definition execute_subprocess ::
  "'w port \<Rightarrow> argv \<Rightarrow> 'w state \<Rightarrow> (int \<times> string) \<times> 'w state" where
  \<comment> \<open>a command whose status or output goes back to the caller\<close>
  "execute_subprocess P cmd s =
     (query P (world s) (cwd s) cmd, s\<lparr>issued := issued s @ [cmd]\<rparr>)"

definition execute_effect :: "'w port \<Rightarrow> argv \<Rightarrow> 'w state \<Rightarrow> 'w state" where
  \<comment> \<open>a command run for its side effect\<close>
  "execute_effect P cmd s =
     s\<lparr>world := effect P (world s) (cwd s) cmd, issued := issued s @ [cmd]\<rparr>"

subsection \<open>System calls to git for information gathering\<close>

definition cmd_log_hash :: argv where
  "cmd_log_hash = [''git'', ''log'', ''-1'', ''--format='' @ dq @ ''%H'' @ dq]"

definition git_log_hash :: "'w port \<Rightarrow> 'w state \<Rightarrow> string \<times> 'w state" where
  "git_log_hash P s =
     (let ((status, git_output), s1) = execute_subprocess P cmd_log_hash s
      in (py_strip git_output, s1))"

definition cmd_branch_vv :: argv where
  "cmd_branch_vv = [''git'', ''branch'', ''--verbose'', ''--verbose'']"

definition git_branch_vv :: "'w port \<Rightarrow> 'w state \<Rightarrow> string \<times> 'w state" where
  "git_branch_vv P s =
     (let ((status, git_output), s1) = execute_subprocess P cmd_branch_vv s
      in (git_output, s1))"

definition cmd_showref_tag :: "string \<Rightarrow> argv" where
  "cmd_showref_tag ref = [''git'', ''show-ref'', ''--quiet'', ''--verify'', ''refs/tags/'' @ ref]"

definition git_showref_tag :: "'w port \<Rightarrow> string \<Rightarrow> 'w state \<Rightarrow> int \<times> 'w state" where
  "git_showref_tag P ref s =
     (let ((status, git_output), s1) = execute_subprocess P (cmd_showref_tag ref) s
      in (status, s1))"

definition cmd_showref_branch :: "string \<Rightarrow> argv" where
  "cmd_showref_branch ref =
     [''git'', ''show-ref'', ''--quiet'', ''--verify'', ''refs/heads/'' @ ref]"

definition git_showref_branch :: "'w port \<Rightarrow> string \<Rightarrow> 'w state \<Rightarrow> int \<times> 'w state" where
  "git_showref_branch P ref s =
     (let ((status, git_output), s1) = execute_subprocess P (cmd_showref_branch ref) s
      in (status, s1))"

definition cmd_lsremote_branch :: "string \<Rightarrow> string \<Rightarrow> argv" where
  "cmd_lsremote_branch ref remote_name =
     [''git'', ''ls-remote'', ''--exit-code'', ''--heads'', remote_name, ref]"

definition git_lsremote_branch ::
  "'w port \<Rightarrow> string \<Rightarrow> string \<Rightarrow> 'w state \<Rightarrow> int \<times> 'w state" where
  "git_lsremote_branch P ref remote_name s =
     (let ((status, git_output), s1) =
            execute_subprocess P (cmd_lsremote_branch ref remote_name) s
      in (status, s1))"

definition cmd_revparse_commit :: "string \<Rightarrow> argv" where
  "cmd_revparse_commit ref =
     [''git'', ''rev-parse'', ''--quiet'', ''--verify'', ref @ ''^'' @ ''{commit}'']"

definition git_revparse_commit ::
  "'w port \<Rightarrow> string \<Rightarrow> 'w state \<Rightarrow> (int \<times> string) \<times> 'w state" where
  "git_revparse_commit P ref s =
     (let ((status, git_output), s1) = execute_subprocess P (cmd_revparse_commit ref) s
      in ((status, py_strip git_output), s1))"

definition cmd_status_porcelain_v1z :: argv where
  "cmd_status_porcelain_v1z =
     [''git'', ''status'', ''--untracked-files=no'', ''--porcelain'', ''-z'']"

definition git_status_porcelain_v1z :: "'w port \<Rightarrow> 'w state \<Rightarrow> string \<times> 'w state" where
  "git_status_porcelain_v1z P s =
     (let ((status, git_output), s1) = execute_subprocess P cmd_status_porcelain_v1z s
      in (git_output, s1))"

definition cmd_status_verbose :: argv where
  "cmd_status_verbose = [''git'', ''status'']"

definition git_status_verbose :: "'w port \<Rightarrow> 'w state \<Rightarrow> string \<times> 'w state" where
  "git_status_verbose P s =
     (let ((status, git_output), s1) = execute_subprocess P cmd_status_verbose s
      in (git_output, s1))"

definition cmd_remote_verbose :: argv where
  "cmd_remote_verbose = [''git'', ''remote'', ''--verbose'']"

definition git_remote_verbose :: "'w port \<Rightarrow> 'w state \<Rightarrow> string \<times> 'w state" where
  "git_remote_verbose P s =
     (let ((status, git_output), s1) = execute_subprocess P cmd_remote_verbose s
      in (git_output, s1))"

subsection \<open>System calls to git for side effects\<close>

text \<open>The \<open>verbosity\<close> argument only decides whether the command is printed.\<close>

definition cmd_clone :: "string \<Rightarrow> string \<Rightarrow> argv" where
  "cmd_clone url repo_dir_name = [''git'', ''clone'', url, repo_dir_name]"

definition git_clone :: "'w port \<Rightarrow> string \<Rightarrow> string \<Rightarrow> int \<Rightarrow> 'w state \<Rightarrow> 'w state" where
  "git_clone P url repo_dir_name verbosity s = execute_effect P (cmd_clone url repo_dir_name) s"

definition cmd_remote_add :: "string \<Rightarrow> string \<Rightarrow> argv" where
  "cmd_remote_add name url = [''git'', ''remote'', ''add'', name, url]"

definition git_remote_add :: "'w port \<Rightarrow> string \<Rightarrow> string \<Rightarrow> 'w state \<Rightarrow> 'w state" where
  "git_remote_add P name url s = execute_effect P (cmd_remote_add name url) s"

definition cmd_fetch :: "string \<Rightarrow> argv" where
  "cmd_fetch remote_name = [''git'', ''fetch'', ''--tags'', remote_name]"

definition git_fetch :: "'w port \<Rightarrow> string \<Rightarrow> 'w state \<Rightarrow> 'w state" where
  "git_fetch P remote_name s = execute_effect P (cmd_fetch remote_name) s"

definition cmd_checkout :: "string \<Rightarrow> argv" where
  "cmd_checkout ref = [''git'', ''checkout'', ref]"

definition git_checkout_ref :: "'w port \<Rightarrow> string \<Rightarrow> int \<Rightarrow> 'w state \<Rightarrow> 'w state" where
  "git_checkout_ref P ref verbosity s = execute_effect P (cmd_checkout ref) s"

section \<open>Head State Parser and remote names\<close>

definition current_ref :: "'w port \<Rightarrow> 'w state \<Rightarrow> (error + string) \<times> 'w state" where
  \<comment> \<open>\<open>_current_ref\<close>\<close>
  "current_ref P s =
     (let (git_output, s1) = git_branch_vv P s
      in (current_ref_parse git_output, s1))"

fun determine_loop :: "string \<Rightarrow> string list \<Rightarrow> error + string" where
  \<comment> \<open>the loop of \<open>_determine_remote_name\<close> over the lines of \<open>git remote --verbose\<close>\<close>
  "determine_loop url [] = Inr ''''"
| "determine_loop url (line # lines) =
     (let data = py_strip line
      in if data = [] then determine_loop url lines
         else
           (case py_split data of
              name # u # rest \<Rightarrow>
                if url = py_strip u then Inr (py_strip name) else determine_loop url lines
            | _ \<Rightarrow> Inl IndexError))"

definition determine_remote_name ::
  "'w port \<Rightarrow> repo \<Rightarrow> 'w state \<Rightarrow> (error + string) \<times> 'w state" where
  \<comment> \<open>\<open>_determine_remote_name\<close>\<close>
  "determine_remote_name P r s =
     (let (git_output, s1) = git_remote_verbose P s
      in (determine_loop (repo_url r) (splitlines git_output), s1))"

definition unsafe_characters :: string where
  \<comment> \<open>the literal \<open>'!@#$%^&*()[]{}\\/,;~'\<close>, whose \<open>\\\<close> is one backslash\<close>
  "unsafe_characters = ''!@#$%^&*()[]{}'' @ [CHR 0x5C] @ ''/,;~''"

definition create_remote_name :: "utils \<Rightarrow> repo \<Rightarrow> error + string" where
  \<comment> \<open>\<open>_create_remote_name\<close>; \<open>url[-2]\<close> raises when \<open>url\<close> has one segment\<close>
  "create_remote_name U r =
     (let url = (if is_remote_url U (repo_url r) then split_remote_url U (repo_url r)
                 else expand_local_url U (repo_url r) (repo_name r));
          url = split_on (CHR ''/'') url;
          repo_nm = last url
      in if length url < 2 then Inl IndexError
         else
           (let base_name = url ! (length url - 2);
                base_name = fold (\<lambda>unsafe b. filter (\<lambda>c. c \<noteq> unsafe) b)
                              unsafe_characters base_name
            in Inr (base_name @ ''_'' @ repo_nm)))"

section \<open>Reference Classifier\<close>

definition ref_is_tag :: "'w port \<Rightarrow> string \<Rightarrow> 'w state \<Rightarrow> bool \<times> 'w state" where
  "ref_is_tag P ref s = (let (v, s1) = git_showref_tag P ref s in (v = 0, s1))"

definition ref_is_local_branch :: "'w port \<Rightarrow> string \<Rightarrow> 'w state \<Rightarrow> bool \<times> 'w state" where
  "ref_is_local_branch P ref s = (let (v, s1) = git_showref_branch P ref s in (v = 0, s1))"

definition ref_is_remote_branch ::
  "'w port \<Rightarrow> string \<Rightarrow> string \<Rightarrow> 'w state \<Rightarrow> bool \<times> 'w state" where
  "ref_is_remote_branch P ref remote_name s =
     (let (v, s1) = git_lsremote_branch P ref remote_name s in (v = 0, s1))"

definition ref_is_branch ::
  "'w port \<Rightarrow> string \<Rightarrow> string option \<Rightarrow> 'w state \<Rightarrow> bool \<times> 'w state" where
  \<comment> \<open>the default \<open>remote_name=None\<close> is \<open>None\<close>; \<open>if remote_name:\<close> asks for a
      name that is not empty\<close>
  "ref_is_branch P ref remote_name s =
     (let (remote_branch, s1) =
            (case remote_name of
               None \<Rightarrow> (False, s)
             | Some n \<Rightarrow> if n \<noteq> [] then ref_is_remote_branch P ref n s else (False, s));
          (local_branch, s2) = ref_is_local_branch P ref s1
      in (local_branch \<or> remote_branch, s2))"

definition ref_is_commit :: "'w port \<Rightarrow> string \<Rightarrow> 'w state \<Rightarrow> bool \<times> 'w state" where
  "ref_is_commit P ref s =
     (let ((v, git_output), s1) = git_revparse_commit P ref s in (v = 0, s1))"

definition ref_is_hash :: "'w port \<Rightarrow> string \<Rightarrow> 'w state \<Rightarrow> bool \<times> 'w state" where
  "ref_is_hash P ref s =
     (let ((status, git_output), s1) = git_revparse_commit P ref s
      in (status = 0 \<and> startswith (py_strip git_output) ref, s1))"

definition msg_is_ok :: string where
  "msg_is_ok = ''is ok''"

definition msg_both :: string where
  "msg_both = ''is both a branch and a tag. git may checkout the branch ''
     @ ''instead of the tag depending on your version of git.''"

definition msg_branch_not_tag :: string where
  "msg_branch_not_tag = ''is a branch, and not a tag. If you intended to checkout ''
     @ ''a branch, please change the externals description to be ''
     @ ''a branch. If you intended to checkout a tag, it does not ''
     @ ''exist. Please check the name.''"

definition msg_undetermined :: string where
  "msg_undetermined = ''does not appear to be a valid tag, branch or hash! ''
     @ ''Please check the name and repository.''"

definition is_unique_tag ::
  "'w port \<Rightarrow> string \<Rightarrow> string option \<Rightarrow> 'w state \<Rightarrow> (bool \<times> string) \<times> 'w state" where
  \<comment> \<open>\<open>_is_unique_tag\<close>\<close>
  "is_unique_tag P ref remote_name s =
     (let (is_tag, s1) = ref_is_tag P ref s;
          (is_branch, s2) = ref_is_branch P ref remote_name s1;
          (is_hash, s3) = ref_is_hash P ref s2
      in if is_tag \<and> \<not> is_branch then ((True, msg_is_ok), s3)
         else if is_tag \<and> is_branch then ((False, msg_both), s3)
         else if \<not> is_tag \<and> is_branch then ((False, msg_branch_not_tag), s3)
         else if is_hash then ((True, msg_is_ok), s3)
         else ((False, msg_undetermined), s3))"

definition msg_invalid_ref :: "repo \<Rightarrow> string \<Rightarrow> string" where
  "msg_invalid_ref r ref =
     ''In repo '' @ dq @ repo_name r @ dq @ '': reference '' @ dq @ ref @ dq
       @ '' does not appear to be a ''
       @ ''valid tag, branch or hash! Please verify the reference ''
       @ ''name (e.g. spelling), is available from: '' @ repo_url r @ '' ''"

definition msg_tag :: "repo \<Rightarrow> string \<Rightarrow> string" where
  \<comment> \<open>\<open>'In repo "{0}": tag "{1}" {2}'.format(self._name, self._tag, msg)\<close>\<close>
  "msg_tag r msg =
     ''In repo '' @ dq @ repo_name r @ dq @ '': tag '' @ dq @ repo_tag r @ dq @ '' '' @ msg"

definition check_for_valid_ref ::
  "'w port \<Rightarrow> repo \<Rightarrow> string \<Rightarrow> string option \<Rightarrow> 'w state \<Rightarrow> (error + bool) \<times> 'w state" where
  \<comment> \<open>\<open>_check_for_valid_ref\<close>\<close>
  "check_for_valid_ref P r ref remote_name s =
     (let (is_tag, s1) = ref_is_tag P ref s;
          (is_branch, s2) = ref_is_branch P ref remote_name s1;
          (is_hash, s3) = ref_is_hash P ref s2;
          is_valid = (is_tag \<or> is_branch \<or> is_hash)
      in if \<not> is_valid then (Inl (Fatal (msg_invalid_ref r ref)), s3)
         else if is_tag then
           (let ((unique, msg), s4) = is_unique_tag P ref remote_name s3
            in if \<not> unique then (Inl (Fatal (msg_tag r msg)), s4)
               else (Inr is_valid, s4))
         else (Inr is_valid, s3))"

section \<open>Sync Evaluator\<close>

definition compare_refs :: "string \<Rightarrow> string \<Rightarrow> status" where
  "compare_refs current expected =
     (if current = expected then STATUS_OK else MODEL_MODIFIED)"

definition msg_none_set :: "repo \<Rightarrow> string" where
  "msg_none_set r =
     ''In repo '' @ dq @ repo_name r @ dq @ '': none of branch, hash or tag are set''"

definition expected_ref_of ::
  "'w port \<Rightarrow> utils \<Rightarrow> repo \<Rightarrow> 'w state \<Rightarrow> (error + string) \<times> 'w state" where
  \<comment> \<open>the chain \<open>if self._branch: ... else: fatal_error(msg)\<close> of \<open>_check_sync_logic\<close>\<close>
  "expected_ref_of P U r s =
     (if repo_branch r \<noteq> [] then
        (if repo_url r = LOCAL_PATH_INDICATOR U then (Inr (repo_branch r), s)
         else
           seq (determine_remote_name P r s)
             (\<lambda>remote_name s1.
                if remote_name = [] then (Inr (''unknown_remote/'' @ repo_branch r), s1)
                else (Inr (remote_name @ ''/'' @ repo_branch r), s1)))
      else if repo_hash r \<noteq> [] then (Inr (repo_hash r), s)
      else if repo_tag r \<noteq> [] then (Inr (repo_tag r), s)
      else (Inl (Fatal (msg_none_set r)), s))"

definition set_sync_state :: "status \<Rightarrow> 'w state \<Rightarrow> 'w state" where
  \<comment> \<open>\<open>stat.sync_state = v\<close>\<close>
  "set_sync_state v s = s\<lparr>stat := (stat s)\<lparr>sync_state := v\<rparr>\<rparr>"

definition evaluate_sync :: "'w port \<Rightarrow> string \<Rightarrow> string \<Rightarrow> 'w state \<Rightarrow> 'w state" where
  \<comment> \<open>the last \<open>if current_ref == EMPTY_STR: ... else: ...\<close> of \<open>_check_sync_logic\<close>\<close>
  "evaluate_sync P current expected_ref s =
     (if current = EMPTY_STR then set_sync_state UNKNOWN s
      else
        (let ((revparse_status, expected_ref_hash), s1) =
               git_revparse_commit P expected_ref s
         in if revparse_status \<noteq> 0 then set_sync_state MODEL_MODIFIED s1
            else set_sync_state (compare_refs current expected_ref_hash) s1))"

definition check_sync_logic ::
  "'w port \<Rightarrow> utils \<Rightarrow> repo \<Rightarrow> string \<Rightarrow> 'w state \<Rightarrow> (error + unit) \<times> 'w state" where
  \<comment> \<open>\<open>_check_sync_logic\<close>\<close>
  "check_sync_logic P U r repo_dir_path s =
     (let cwd0 = cwd s
      in seq (chdir P repo_dir_path s)
           (\<lambda>_ s1.
              let (current, s2) = git_log_hash P s1;
                  current = strip_chars dq current
              in seq (expected_ref_of P U r s2)
                   (\<lambda>expected_ref s3.
                      seq (current_ref P s3)
                        (\<lambda>name s4.
                           let s5 = s4\<lparr>stat := (stat s4)\<lparr>current_version := name,
                                                        expected_version := expected_ref\<rparr>\<rparr>
                           in chdir P cwd0 (evaluate_sync P current expected_ref s5)))))"

definition check_sync ::
  "'w port \<Rightarrow> utils \<Rightarrow> repo \<Rightarrow> string \<Rightarrow> 'w state \<Rightarrow> (error + unit) \<times> 'w state" where
  \<comment> \<open>\<open>_check_sync\<close>\<close>
  "check_sync P U r repo_dir_path s =
     (if \<not> path_exists P (world s) (cwd s) repo_dir_path
      then (Inr (), set_sync_state STATUS_ERROR s)
      else
        (let git_dir = os_path_join repo_dir_path ''.git''
         in if \<not> path_exists P (world s) (cwd s) git_dir
            then (Inr (), set_sync_state UNKNOWN s)
            else check_sync_logic P U r repo_dir_path s))"

definition status_v1z_is_dirty :: "string \<Rightarrow> bool" where
  "status_v1z_is_dirty git_output = (git_output \<noteq> [])"

definition status_summary ::
  "'w port \<Rightarrow> string \<Rightarrow> 'w state \<Rightarrow> (error + unit) \<times> 'w state" where
  \<comment> \<open>\<open>_status_summary\<close>\<close>
  "status_summary P repo_dir_path s =
     (let cwd0 = cwd s
      in seq (chdir P repo_dir_path s)
           (\<lambda>_ s1.
              let (git_output, s2) = git_status_porcelain_v1z P s1;
                  is_dirty = status_v1z_is_dirty git_output;
                  s3 = s2\<lparr>stat := (stat s2)\<lparr>clean_state :=
                                                (if is_dirty then DIRTY else STATUS_OK)\<rparr>\<rparr>;
                  (verbose, s4) = git_status_verbose P s3;
                  s5 = s4\<lparr>stat := (stat s4)\<lparr>status_output := verbose\<rparr>\<rparr>
              in chdir P cwd0 s5))"

definition status ::
  "'w port \<Rightarrow> utils \<Rightarrow> repo \<Rightarrow> string \<Rightarrow> 'w state \<Rightarrow> (error + unit) \<times> 'w state" where
  \<comment> \<open>the public \<open>status\<close>\<close>
  "status P U r repo_dir_path s =
     seq (check_sync P U r repo_dir_path s)
       (\<lambda>_ s1.
          if path_exists P (world s1) (cwd s1) repo_dir_path
          then status_summary P repo_dir_path s1
          else (Inr (), s1))"

section \<open>Checkout Orchestrator\<close>

definition declared_ref :: "repo \<Rightarrow> string" where
  \<comment> \<open>\<open>if self._tag: ... elif self._branch: ... else: ref = self._hash\<close>\<close>
  "declared_ref r =
     (if repo_tag r \<noteq> [] then repo_tag r
      else if repo_branch r \<noteq> [] then repo_branch r
      else repo_hash r)"

definition checkout_local_ref ::
  "'w port \<Rightarrow> repo \<Rightarrow> int \<Rightarrow> 'w state \<Rightarrow> (error + unit) \<times> 'w state" where
  \<comment> \<open>\<open>_checkout_local_ref\<close>\<close>
  "checkout_local_ref P r verbosity s =
     (let ref = declared_ref r
      in seq (check_for_valid_ref P r ref None s)
           (\<lambda>_ s1. (Inr (), git_checkout_ref P ref verbosity s1)))"

definition find_or_create_remote ::
  "'w port \<Rightarrow> utils \<Rightarrow> repo \<Rightarrow> 'w state \<Rightarrow> (error + string) \<times> 'w state" where
  \<comment> \<open>the lines \<open>remote_name = self._determine_remote_name()\<close> to
      \<open>self._git_remote_add(remote_name, self._url)\<close> of \<open>_checkout_external_ref\<close>\<close>
  "find_or_create_remote P U r s =
     seq (determine_remote_name P r s)
       (\<lambda>remote_name s1.
          if remote_name = [] then
            (case create_remote_name U r of
               Inl e \<Rightarrow> (Inl e, s1)
             | Inr created \<Rightarrow> (Inr created, git_remote_add P created (repo_url r) s1))
          else (Inr remote_name, s1))"

definition checkout_external_ref ::
  "'w port \<Rightarrow> utils \<Rightarrow> repo \<Rightarrow> int \<Rightarrow> 'w state \<Rightarrow> (error + unit) \<times> 'w state" where
  \<comment> \<open>\<open>_checkout_external_ref\<close>\<close>
  "checkout_external_ref P U r verbosity s =
     (let ref = declared_ref r
      in seq (find_or_create_remote P U r s)
           (\<lambda>remote_name s2.
              let s3 = git_fetch P remote_name s2
              in seq (check_for_valid_ref P r ref (Some remote_name) s3)
                   (\<lambda>_ s4.
                      let ref = (if repo_branch r \<noteq> [] then remote_name @ ''/'' @ ref
                                 else ref)
                      in (Inr (), git_checkout_ref P ref verbosity s4))))"

definition checkout_ref ::
  "'w port \<Rightarrow> utils \<Rightarrow> repo \<Rightarrow> string \<Rightarrow> int \<Rightarrow> 'w state \<Rightarrow> (error + unit) \<times> 'w state" where
  \<comment> \<open>\<open>_checkout_ref\<close>\<close>
  "checkout_ref P U r repo_dir verbosity s =
     (let cwd0 = cwd s
      in seq (chdir P repo_dir s)
           (\<lambda>_ s1.
              seq (if py_strip (repo_url r) = LOCAL_PATH_INDICATOR U
                   then checkout_local_ref P r verbosity s1
                   else checkout_external_ref P U r verbosity s1)
                (\<lambda>_ s2. chdir P cwd0 s2)))"

definition clone_repo ::
  "'w port \<Rightarrow> repo \<Rightarrow> string \<Rightarrow> string \<Rightarrow> int \<Rightarrow> 'w state \<Rightarrow> (error + unit) \<times> 'w state" where
  \<comment> \<open>\<open>_clone_repo\<close>\<close>
  "clone_repo P r base_dir_path repo_dir_name verbosity s =
     (let cwd0 = cwd s
      in seq (chdir P base_dir_path s)
           (\<lambda>_ s1. chdir P cwd0 (git_clone P (repo_url r) repo_dir_name verbosity s1)))"

definition checkout ::
  "'w port \<Rightarrow> utils \<Rightarrow> repo \<Rightarrow> string \<Rightarrow> string \<Rightarrow> int \<Rightarrow> 'w state
     \<Rightarrow> (error + unit) \<times> 'w state" where
  \<comment> \<open>the public \<open>checkout\<close>\<close>
  "checkout P U r base_dir_path repo_dir_name verbosity s =
     (let repo_dir_path = os_path_join base_dir_path repo_dir_name
      in seq (if \<not> path_exists P (world s) (cwd s) repo_dir_path
              then clone_repo P r base_dir_path repo_dir_name verbosity s
              else (Inr (), s))
           (\<lambda>_ s1. checkout_ref P U r repo_dir_path verbosity s1))"

section \<open>Notions used to state the properties\<close>

definition probe_cmds :: "string \<Rightarrow> string option \<Rightarrow> argv list" where
  \<comment> \<open>the commands of one round of the three probes \<open>_ref_is_tag\<close>, \<open>_ref_is_branch\<close>
      and \<open>_ref_is_hash\<close>, in the order in which they run\<close>
  "probe_cmds ref remote_name =
     [cmd_showref_tag ref]
     @ (case remote_name of
          None \<Rightarrow> []
        | Some n \<Rightarrow> if n \<noteq> [] then [cmd_lsremote_branch ref n] else [])
     @ [cmd_showref_branch ref, cmd_revparse_commit ref]"

definition probes_tag :: "'w port \<Rightarrow> 'w \<Rightarrow> string \<Rightarrow> string \<Rightarrow> bool" where
  \<comment> \<open>the reference probes as a tag, seen from directory \<open>c\<close> of world \<open>w\<close>\<close>
  "probes_tag P w c ref = (fst (query P w c (cmd_showref_tag ref)) = 0)"

definition probes_branch :: "'w port \<Rightarrow> 'w \<Rightarrow> string \<Rightarrow> string \<Rightarrow> string option \<Rightarrow> bool" where
  \<comment> \<open>the reference probes as a branch: a local one, or one of the named remote\<close>
  "probes_branch P w c ref remote_name =
     (fst (query P w c (cmd_showref_branch ref)) = 0
      \<or> (case remote_name of
            None \<Rightarrow> False
          | Some n \<Rightarrow> n \<noteq> [] \<and> fst (query P w c (cmd_lsremote_branch ref n)) = 0))"

definition probes_hash :: "'w port \<Rightarrow> 'w \<Rightarrow> string \<Rightarrow> string \<Rightarrow> bool" where
  "probes_hash P w c ref =
     (fst (query P w c (cmd_revparse_commit ref)) = 0
      \<and> startswith (py_strip (py_strip (snd (query P w c (cmd_revparse_commit ref))))) ref)"

definition head_hash :: "'w port \<Rightarrow> 'w \<Rightarrow> string \<Rightarrow> string" where
  \<comment> \<open>the current hash as \<open>_check_sync_logic\<close> reads it in directory \<open>c\<close>\<close>
  "head_hash P w c = strip_chars dq (py_strip (snd (query P w c cmd_log_hash)))"

definition listed_name :: "'w port \<Rightarrow> 'w \<Rightarrow> string \<Rightarrow> string \<Rightarrow> error + string" where
  \<comment> \<open>what the loop over \<open>git remote --verbose\<close> finds for a URL\<close>
  "listed_name P w c url =
     determine_loop url (splitlines (snd (query P w c cmd_remote_verbose)))"

definition url_listed :: "'w port \<Rightarrow> 'w \<Rightarrow> string \<Rightarrow> string \<Rightarrow> bool" where
  \<comment> \<open>some binding of the listing has the URL\<close>
  "url_listed P w c url =
     (case listed_name P w c url of Inl e \<Rightarrow> False | Inr n \<Rightarrow> n \<noteq> [])"

definition is_remote_add :: "argv \<Rightarrow> bool" where
  \<comment> \<open>a command \<open>git remote add ...\<close>\<close>
  "is_remote_add cmd = (take 3 cmd = [''git'', ''remote'', ''add''])"

definition is_checkout :: "argv \<Rightarrow> bool" where
  \<comment> \<open>a command \<open>git checkout ...\<close>\<close>
  "is_checkout cmd = (take 2 cmd = [''git'', ''checkout''])"

definition issued_since :: "'w state \<Rightarrow> 'w state \<Rightarrow> argv list" where
  \<comment> \<open>the commands run between an earlier and a later state\<close>
  "issued_since s s' = drop (length (issued s)) (issued s')"

section \<open>A small world for the examples\<close>

text \<open>
  A world with the few facts the probes ask for, and an executor over it that answers
  the commands of this program. \<open>git remote add\<close> appends a binding; the other effects
  leave the world as it is.
\<close>

record git_world =
  w_head :: string
  w_branch_vv :: string
  w_tags :: "string list"
  w_heads :: "string list"
  w_remote_heads :: "(string \<times> string) list"
  w_commits :: "(string \<times> string) list"
  w_remotes :: "(string \<times> string) list"
  w_porcelain :: string
  w_dirs :: "string list"

definition remote_line :: "string \<times> string \<Rightarrow> string" where
  "remote_line b =
     fst b @ [CHR 0x09] @ snd b @ '' (fetch)'' @ nl
     @ fst b @ [CHR 0x09] @ snd b @ '' (push)'' @ nl"

definition example_query :: "git_world \<Rightarrow> string \<Rightarrow> argv \<Rightarrow> int \<times> string" where
  "example_query w c cmd =
     (if cmd = cmd_log_hash then (0, dq @ w_head w @ dq @ nl)
      else if cmd = cmd_branch_vv then (0, w_branch_vv w)
      else if cmd = cmd_remote_verbose then (0, concat (map remote_line (w_remotes w)))
      else if cmd = cmd_status_porcelain_v1z then (0, w_porcelain w)
      else if cmd = cmd_status_verbose then (0, ''nothing to report'')
      else if cmd \<in> set (map cmd_showref_tag (w_tags w)) then (0, [])
      else if cmd \<in> set (map cmd_showref_branch (w_heads w)) then (0, [])
      else if cmd \<in> set (map (\<lambda>b. cmd_lsremote_branch (snd b) (fst b)) (w_remote_heads w))
        then (0, [])
      else
        (case map_of (map (\<lambda>b. (cmd_revparse_commit (fst b), snd b)) (w_commits w)) cmd of
           Some h \<Rightarrow> (0, h @ nl)
         | None \<Rightarrow> (1, [])))"

definition example_effect :: "git_world \<Rightarrow> string \<Rightarrow> argv \<Rightarrow> git_world" where
  "example_effect w c cmd =
     (case cmd of
        [g, sub, act, n, u] \<Rightarrow>
          if sub = ''remote'' \<and> act = ''add'' then w\<lparr>w_remotes := w_remotes w @ [(n, u)]\<rparr>
          else w
      | _ \<Rightarrow> w)"

definition example_port :: "git_world port" where
  "example_port =
     \<lparr>query = example_query, effect = example_effect,
      path_exists = (\<lambda>w c p. p \<in> set (w_dirs w)),
      is_dir = (\<lambda>w c p. p \<in> set (w_dirs w))\<rparr>"

fun after_scheme :: "string \<Rightarrow> string" where
  "after_scheme [] = []"
| "after_scheme (c # cs) =
     (if startswith (c # cs) ''://'' then drop 3 (c # cs) else after_scheme cs)"

definition example_utils :: utils where
  \<comment> \<open>stand-ins for the helpers of \<open>utils\<close>: a URL with \<open>://\<close> is remote and loses its
      scheme, a local URL is kept as it is\<close>
  "example_utils =
     \<lparr>LOCAL_PATH_INDICATOR = ''.'',
      is_remote_url = contains ''://'',
      split_remote_url = after_scheme,
      expand_local_url = (\<lambda>url field. url)\<rparr>"

definition example_world :: git_world where
  \<comment> \<open>a working copy on \<open>master\<close>, which tracks \<open>origin/master\<close>; \<open>v1\<close> is a tag and
      a branch; the tag \<open>rel1\<close> is at the commit of \<open>master\<close>\<close>
  "example_world =
     \<lparr>w_head = ''36418b4f'',
      w_branch_vv = ''* master 36418b4f [origin/master] Work on feature2'' @ nl,
      w_tags = [''v1'', ''tag1'', ''rel1''],
      w_heads = [''master'', ''v1''],
      w_remote_heads = [(''origin'', ''master''), (''origin'', ''feature2'')],
      w_commits = [(''origin/master'', ''36418b4f''), (''origin/feature2'', ''9b754940''),
                   (''master'', ''36418b4f''), (''tag1'', ''9b754940''), (''v1'', ''9b754940''),
                   (''rel1'', ''36418b4f''), (''36418b4f'', ''36418b4f'')],
      w_remotes = [(''origin'', ''https://example/repo.git'')],
      w_porcelain = [],
      w_dirs = [''/work'', ''/work/repo'', ''/work/repo/.git'', ''/work/plain'']\<rparr>"

definition detached_world :: git_world where
  \<comment> \<open>the same working copy with the tag \<open>v1.0+rc1\<close> checked out\<close>
  "detached_world =
     example_world
       \<lparr>w_branch_vv := ''* (HEAD detached at v1.0+rc1) 36418b4f Work on feature2'' @ nl
                         @ ''  master 36418b4f [origin/master] Work on feature2'' @ nl,
        w_tags := [''v1.0+rc1''],
        w_commits := [(''v1.0+rc1'', ''36418b4f'')]\<rparr>"

definition example_stat :: stat where
  "example_stat =
     \<lparr>sync_state = UNKNOWN, clean_state = UNKNOWN, current_version = [],
      expected_version = [], status_output = []\<rparr>"

definition example_state :: "git_world state" where
  "example_state = \<lparr>cwd = ''/work'', world = example_world, issued = [], stat = example_stat\<rparr>"

definition branch_repo :: "string \<Rightarrow> string \<Rightarrow> repo" where
  \<comment> \<open>a declaration with a URL and a branch\<close>
  "branch_repo url b =
     \<lparr>repo_name = ''comp'', repo_url = url, repo_branch = b, repo_tag = [], repo_hash = []\<rparr>"

definition tag_repo :: "string \<Rightarrow> string \<Rightarrow> repo" where
  \<comment> \<open>a declaration with a URL and a tag\<close>
  "tag_repo url t =
     \<lparr>repo_name = ''comp'', repo_url = url, repo_branch = [], repo_tag = t, repo_hash = []\<rparr>"

definition empty_repo :: repo where
  \<comment> \<open>a declaration with none of branch, tag and hash\<close>
  "empty_repo =
     \<lparr>repo_name = ''comp'', repo_url = ''https://example/repo.git'', repo_branch = [],
      repo_tag = [], repo_hash = []\<rparr>"

definition hash_repo :: "string \<Rightarrow> string \<Rightarrow> repo" where
  \<comment> \<open>a declaration with a URL and a hash\<close>
  "hash_repo url h =
     \<lparr>repo_name = ''comp'', repo_url = url, repo_branch = [], repo_tag = [], repo_hash = h\<rparr>"

definition advanced_world :: git_world where
  \<comment> \<open>the working copy one commit past \<open>origin/feature-2\<close>, at the commit \<open>abc123\<close>\<close>
  "advanced_world =
     example_world
       \<lparr>w_head := ''abc123'',
        w_branch_vv :=
          ''* (HEAD detached from origin/feature-2) abc123 fix detached at parsing'' @ nl
          @ ''  master 36418b4f [origin/master] Work on feature2'' @ nl,
        w_commits := [(''abc123'', ''abc123''), (''master'', ''36418b4f'')]\<rparr>"

definition spaced_world :: git_world where
  \<comment> \<open>the working copy with one remote binding, whose URL is a local path with a space\<close>
  "spaced_world = example_world\<lparr>w_remotes := [(''local'', ''/my repos/proj/foo'')]\<rparr>"

section \<open>Properties of the Reference Classifier\<close>

lemmas example_simps =
  example_port_def example_query_def example_effect_def example_world_def example_state_def
  example_stat_def example_utils_def tag_repo_def branch_repo_def empty_repo_def
  cmd_log_hash_def cmd_branch_vv_def cmd_remote_verbose_def cmd_status_porcelain_v1z_def
  cmd_status_verbose_def cmd_showref_tag_def cmd_showref_branch_def cmd_lsremote_branch_def
  cmd_revparse_commit_def dq_def nl_def

lemma ref_is_tag_eq:
  "ref_is_tag P ref s =
     (probes_tag P (world s) (cwd s) ref, s\<lparr>issued := issued s @ [cmd_showref_tag ref]\<rparr>)"
  by (simp add: ref_is_tag_def git_showref_tag_def execute_subprocess_def probes_tag_def
        split: prod.splits)

lemma ref_is_branch_eq:
  "ref_is_branch P ref rn s =
     (probes_branch P (world s) (cwd s) ref rn,
      s\<lparr>issued := issued s
          @ (case rn of None \<Rightarrow> [] | Some n \<Rightarrow> if n \<noteq> [] then [cmd_lsremote_branch ref n] else [])
          @ [cmd_showref_branch ref]\<rparr>)"
  by (cases rn)
     (auto simp add: ref_is_branch_def ref_is_remote_branch_def ref_is_local_branch_def
        git_lsremote_branch_def git_showref_branch_def execute_subprocess_def
        probes_branch_def split: prod.splits)

lemma ref_is_hash_eq:
  "ref_is_hash P ref s =
     (probes_hash P (world s) (cwd s) ref, s\<lparr>issued := issued s @ [cmd_revparse_commit ref]\<rparr>)"
  by (simp add: ref_is_hash_def git_revparse_commit_def execute_subprocess_def probes_hash_def
        split: prod.splits)

lemma is_unique_tag_eq:
  "is_unique_tag P ref rn s =
     ((if probes_tag P (world s) (cwd s) ref \<and> \<not> probes_branch P (world s) (cwd s) ref rn
         then (True, msg_is_ok)
       else if probes_tag P (world s) (cwd s) ref \<and> probes_branch P (world s) (cwd s) ref rn
         then (False, msg_both)
       else if \<not> probes_tag P (world s) (cwd s) ref \<and> probes_branch P (world s) (cwd s) ref rn
         then (False, msg_branch_not_tag)
       else if probes_hash P (world s) (cwd s) ref then (True, msg_is_ok)
       else (False, msg_undetermined)),
      s\<lparr>issued := issued s @ probe_cmds ref rn\<rparr>)"
  by (simp add: is_unique_tag_def ref_is_tag_eq ref_is_branch_eq ref_is_hash_eq probe_cmds_def)

lemma check_for_valid_ref_eq:
  "check_for_valid_ref P r ref rn s =
     (if \<not> (probes_tag P (world s) (cwd s) ref \<or> probes_branch P (world s) (cwd s) ref rn
             \<or> probes_hash P (world s) (cwd s) ref)
      then (Inl (Fatal (msg_invalid_ref r ref)), s\<lparr>issued := issued s @ probe_cmds ref rn\<rparr>)
      else if probes_tag P (world s) (cwd s) ref then
        (if probes_branch P (world s) (cwd s) ref rn
         then (Inl (Fatal (msg_tag r msg_both)),
               s\<lparr>issued := issued s @ probe_cmds ref rn @ probe_cmds ref rn\<rparr>)
         else (Inr True, s\<lparr>issued := issued s @ probe_cmds ref rn @ probe_cmds ref rn\<rparr>))
      else (Inr True, s\<lparr>issued := issued s @ probe_cmds ref rn\<rparr>))"
  by (simp add: check_for_valid_ref_def ref_is_tag_eq ref_is_branch_eq ref_is_hash_eq
        is_unique_tag_eq probe_cmds_def)

lemma startswith_append: "startswith (sub @ b) sub"
  by (simp add: startswith_def)

lemma contains_self_append: "contains sub (sub @ b)"
proof (cases "sub @ b")
  case Nil
  then show ?thesis by simp
next
  case (Cons c cs)
  with startswith_append [of sub b] show ?thesis by simp
qed

lemma contains_append: "contains sub (a @ sub @ b)"
  by (induction a) (auto simp: contains_self_append)

lemma probe_cmds_no_checkout: "\<not> list_ex is_checkout (probe_cmds ref rn)"
  by (auto simp: probe_cmds_def is_checkout_def cmd_showref_tag_def cmd_lsremote_branch_def
        cmd_showref_branch_def cmd_revparse_commit_def split: option.splits)

lemma msg_tag_both_contains: "contains ''is both a branch and a tag'' (msg_tag r msg_both)"
proof -
  have "msg_tag r msg_both =
      (''In repo '' @ dq @ repo_name r @ dq @ '': tag '' @ dq @ repo_tag r @ dq @ '' '')
        @ ''is both a branch and a tag'' @ ''. git may checkout the branch instead of the tag depending on your version of git.''"
    by (simp add: msg_tag_def msg_both_def)
  then show ?thesis by (simp only: contains_append)
qed

text \<open>
  Claim C4. A reference that probes as a tag and as a branch is rejected by
  \<open>_check_for_valid_ref\<close>: the result is the fatal error whose message says that the
  reference "is both a branch and a tag", and only probes have run, no checkout. The
  local and the external checkout stop with the same error, so neither proceeds to
  \<open>git checkout\<close>. The message names the repository and the tag field of the declaration.
\<close>

theorem tag_and_branch_rejected:
  assumes "probes_tag P (world s) (cwd s) ref"
    and "probes_branch P (world s) (cwd s) ref rn"
  shows "check_for_valid_ref P r ref rn s =
           (Inl (Fatal (msg_tag r msg_both)),
            s\<lparr>issued := issued s @ probe_cmds ref rn @ probe_cmds ref rn\<rparr>)
         \<and> contains ''is both a branch and a tag'' (msg_tag r msg_both)
         \<and> \<not> list_ex is_checkout (probe_cmds ref rn @ probe_cmds ref rn)
         \<and> (ref = declared_ref r \<and> rn = None \<longrightarrow>
              checkout_local_ref P r verbosity s =
                (Inl (Fatal (msg_tag r msg_both)),
                 s\<lparr>issued := issued s @ probe_cmds ref rn @ probe_cmds ref rn\<rparr>))
         \<and> (\<forall>n s0 s2. find_or_create_remote P U r s0 = (Inr n, s2) \<and> git_fetch P n s2 = s
                \<and> ref = declared_ref r \<and> rn = Some n \<longrightarrow>
              checkout_external_ref P U r verbosity s0 =
                (Inl (Fatal (msg_tag r msg_both)),
                 s\<lparr>issued := issued s @ probe_cmds ref rn @ probe_cmds ref rn\<rparr>))"
proof -
  have v: "check_for_valid_ref P r ref rn s =
           (Inl (Fatal (msg_tag r msg_both)),
            s\<lparr>issued := issued s @ probe_cmds ref rn @ probe_cmds ref rn\<rparr>)"
    using assms by (simp add: check_for_valid_ref_eq)
  have l: "ref = declared_ref r \<and> rn = None \<longrightarrow>
              checkout_local_ref P r verbosity s =
                (Inl (Fatal (msg_tag r msg_both)),
                 s\<lparr>issued := issued s @ probe_cmds ref rn @ probe_cmds ref rn\<rparr>)"
    using v by (auto simp: checkout_local_ref_def seq_def Let_def)
  have e: "\<forall>n s0 s2. find_or_create_remote P U r s0 = (Inr n, s2) \<and> git_fetch P n s2 = s
                \<and> ref = declared_ref r \<and> rn = Some n \<longrightarrow>
              checkout_external_ref P U r verbosity s0 =
                (Inl (Fatal (msg_tag r msg_both)),
                 s\<lparr>issued := issued s @ probe_cmds ref rn @ probe_cmds ref rn\<rparr>)"
    using v by (auto simp: checkout_external_ref_def seq_def Let_def)
  show ?thesis
    using v l e by (simp add: msg_tag_both_contains probe_cmds_no_checkout)
qed

lemma msg_distinct:
  "msg_invalid_ref r ref \<noteq> msg_tag r m"
  "msg_tag r msg_both \<noteq> msg_tag r msg_branch_not_tag"
  "msg_tag r msg_both \<noteq> msg_tag r msg_undetermined"
  by (simp_all add: msg_invalid_ref_def msg_tag_def msg_both_def msg_branch_not_tag_def
        msg_undetermined_def dq_def)

text \<open>
  Claim C10. \<open>_check_for_valid_ref\<close> runs \<open>_is_unique_tag\<close> (a second round of probes)
  exactly when the reference probes as a tag, and then \<open>_is_unique_tag\<close> answers "is ok"
  or "is both a branch and a tag". A reference that probes as a branch and not as a tag
  is accepted after one round of probes, whatever the declaration calls it, and both
  checkouts go on to \<open>git checkout\<close>. The only fatal errors of \<open>_check_for_valid_ref\<close> are
  the invalid-reference error and the both-a-branch-and-a-tag error: the messages "is a
  branch, and not a tag" and "does not appear to be a valid tag, branch or hash! Please
  check the name and repository." of \<open>_is_unique_tag\<close> are never raised through it.
\<close>

theorem unique_tag_only_for_tags:
  "(probes_tag P (world s) (cwd s) ref \<longrightarrow>
      issued (snd (check_for_valid_ref P r ref rn s))
        = issued s @ probe_cmds ref rn @ probe_cmds ref rn
      \<and> (fst (is_unique_tag P ref rn (s\<lparr>issued := issued s @ probe_cmds ref rn\<rparr>)) = (True, msg_is_ok)
         \<or> fst (is_unique_tag P ref rn (s\<lparr>issued := issued s @ probe_cmds ref rn\<rparr>)) = (False, msg_both)))
   \<and> (\<not> probes_tag P (world s) (cwd s) ref \<longrightarrow>
      issued (snd (check_for_valid_ref P r ref rn s)) = issued s @ probe_cmds ref rn)
   \<and> (\<not> probes_tag P (world s) (cwd s) ref \<and> probes_branch P (world s) (cwd s) ref rn \<longrightarrow>
      check_for_valid_ref P r ref rn s = (Inr True, s\<lparr>issued := issued s @ probe_cmds ref rn\<rparr>)
      \<and> (ref = declared_ref r \<and> rn = None \<longrightarrow>
           checkout_local_ref P r verbosity s =
             (Inr (), git_checkout_ref P ref verbosity (s\<lparr>issued := issued s @ probe_cmds ref rn\<rparr>)))
      \<and> (\<forall>n s0 s2. find_or_create_remote P U r s0 = (Inr n, s2) \<and> git_fetch P n s2 = s
              \<and> ref = declared_ref r \<and> rn = Some n \<longrightarrow>
           checkout_external_ref P U r verbosity s0 =
             (Inr (), git_checkout_ref P (if repo_branch r \<noteq> [] then n @ ''/'' @ ref else ref)
                        verbosity (s\<lparr>issued := issued s @ probe_cmds ref rn\<rparr>))))
   \<and> (\<forall>m. fst (check_for_valid_ref P r ref rn s) = Inl (Fatal m) \<longrightarrow>
          m = msg_invalid_ref r ref \<or> m = msg_tag r msg_both)
   \<and> fst (check_for_valid_ref P r ref rn s) \<noteq> Inl (Fatal (msg_tag r msg_branch_not_tag))
   \<and> fst (check_for_valid_ref P r ref rn s) \<noteq> Inl (Fatal (msg_tag r msg_undetermined))"
proof -
  have a: "probes_tag P (world s) (cwd s) ref \<longrightarrow>
      issued (snd (check_for_valid_ref P r ref rn s))
        = issued s @ probe_cmds ref rn @ probe_cmds ref rn
      \<and> (fst (is_unique_tag P ref rn (s\<lparr>issued := issued s @ probe_cmds ref rn\<rparr>)) = (True, msg_is_ok)
         \<or> fst (is_unique_tag P ref rn (s\<lparr>issued := issued s @ probe_cmds ref rn\<rparr>)) = (False, msg_both))"
    by (simp add: check_for_valid_ref_eq is_unique_tag_eq)
  have b: "\<not> probes_tag P (world s) (cwd s) ref \<longrightarrow>
      issued (snd (check_for_valid_ref P r ref rn s)) = issued s @ probe_cmds ref rn"
    by (simp add: check_for_valid_ref_eq)
  have c: "\<not> probes_tag P (world s) (cwd s) ref \<and> probes_branch P (world s) (cwd s) ref rn \<longrightarrow>
      check_for_valid_ref P r ref rn s = (Inr True, s\<lparr>issued := issued s @ probe_cmds ref rn\<rparr>)"
    by (simp add: check_for_valid_ref_eq)
  have d: "\<not> probes_tag P (world s) (cwd s) ref \<and> probes_branch P (world s) (cwd s) ref rn \<longrightarrow>
      (ref = declared_ref r \<and> rn = None \<longrightarrow>
           checkout_local_ref P r verbosity s =
             (Inr (), git_checkout_ref P ref verbosity (s\<lparr>issued := issued s @ probe_cmds ref rn\<rparr>)))"
    using c by (auto simp: checkout_local_ref_def seq_def Let_def)
  have e: "\<not> probes_tag P (world s) (cwd s) ref \<and> probes_branch P (world s) (cwd s) ref rn \<longrightarrow>
      (\<forall>n s0 s2. find_or_create_remote P U r s0 = (Inr n, s2) \<and> git_fetch P n s2 = s
              \<and> ref = declared_ref r \<and> rn = Some n \<longrightarrow>
           checkout_external_ref P U r verbosity s0 =
             (Inr (), git_checkout_ref P (if repo_branch r \<noteq> [] then n @ ''/'' @ ref else ref)
                        verbosity (s\<lparr>issued := issued s @ probe_cmds ref rn\<rparr>)))"
    using c by (auto simp: checkout_external_ref_def seq_def Let_def)
  have f: "\<forall>m. fst (check_for_valid_ref P r ref rn s) = Inl (Fatal m) \<longrightarrow>
          m = msg_invalid_ref r ref \<or> m = msg_tag r msg_both"
    by (simp add: check_for_valid_ref_eq)
  have g: "fst (check_for_valid_ref P r ref rn s) \<noteq> Inl (Fatal (msg_tag r msg_branch_not_tag))"
    using msg_distinct [of r] by (auto simp add: check_for_valid_ref_eq)
  have h: "fst (check_for_valid_ref P r ref rn s) \<noteq> Inl (Fatal (msg_tag r msg_undetermined))"
    using msg_distinct [of r] by (auto simp add: check_for_valid_ref_eq)
  show ?thesis using a b c d e f g h by blast
qed

theorem tag_and_branch_rejected_witness:
  "probes_tag example_port example_world ''/work/repo'' ''v1''
   \<and> probes_branch example_port example_world ''/work/repo'' ''v1'' None
   \<and> checkout_local_ref example_port (tag_repo ''.'' ''v1'') 0
        (example_state\<lparr>cwd := ''/work/repo''\<rparr>)
      = (Inl (Fatal (msg_tag (tag_repo ''.'' ''v1'') msg_both)),
         example_state\<lparr>cwd := ''/work/repo'',
                        issued := probe_cmds ''v1'' None @ probe_cmds ''v1'' None\<rparr>)"
proof -
  let ?s = "example_state\<lparr>cwd := ''/work/repo''\<rparr>"
  have t: "probes_tag example_port (world ?s) (cwd ?s) ''v1''"
    by (simp add: probes_tag_def example_simps)
  have b: "probes_branch example_port (world ?s) (cwd ?s) ''v1'' None"
    by (simp add: probes_branch_def example_simps)
  have d: "declared_ref (tag_repo ''.'' ''v1'') = ''v1''"
    by (simp add: declared_ref_def tag_repo_def)
  from tag_and_branch_rejected [OF t b, of "tag_repo ''.'' ''v1''" 0 example_utils] t b d
  show ?thesis by (simp add: example_state_def)
qed

theorem unique_tag_only_for_tags_witness:
  "\<not> probes_tag example_port example_world ''/work/repo'' ''master''
   \<and> probes_branch example_port example_world ''/work/repo'' ''master'' None
   \<and> probes_tag example_port example_world ''/work/repo'' ''tag1''
   \<and> checkout_local_ref example_port (tag_repo ''.'' ''master'') 0
        (example_state\<lparr>cwd := ''/work/repo''\<rparr>)
      = (Inr (), git_checkout_ref example_port ''master'' 0
                   (example_state\<lparr>cwd := ''/work/repo'', issued := probe_cmds ''master'' None\<rparr>))
   \<and> fst (is_unique_tag example_port ''tag1'' None
            (example_state\<lparr>cwd := ''/work/repo'', issued := probe_cmds ''tag1'' None\<rparr>))
      = (True, msg_is_ok)"
proof -
  let ?s = "example_state\<lparr>cwd := ''/work/repo''\<rparr>"
  have t: "\<not> probes_tag example_port (world ?s) (cwd ?s) ''master''"
    by (simp add: probes_tag_def example_simps)
  have b: "probes_branch example_port (world ?s) (cwd ?s) ''master'' None"
    by (simp add: probes_branch_def example_simps)
  have t1: "probes_tag example_port (world ?s) (cwd ?s) ''tag1''"
    by (simp add: probes_tag_def example_simps)
  have d: "declared_ref (tag_repo ''.'' ''master'') = ''master''"
    by (simp add: declared_ref_def tag_repo_def)
  have n: "msg_is_ok \<noteq> msg_both"
    by (simp add: msg_is_ok_def msg_both_def)
  have u: "fst (is_unique_tag example_port ''tag1'' None
            (example_state\<lparr>cwd := ''/work/repo'', issued := probe_cmds ''tag1'' None\<rparr>))
      \<noteq> (False, msg_both)"
    by (simp add: is_unique_tag_def ref_is_tag_def ref_is_branch_def ref_is_hash_def
          ref_is_local_branch_def git_showref_tag_def git_showref_branch_def
          git_revparse_commit_def execute_subprocess_def example_simps)
  from unique_tag_only_for_tags [of example_port ?s "''master''" "tag_repo ''.'' ''master''"
         None 0 example_utils]
       unique_tag_only_for_tags [of example_port ?s "''tag1''" "tag_repo ''.'' ''tag1''"
         None 0 example_utils]
       t b t1 d u
  show ?thesis by (simp add: example_state_def)
qed

section \<open>Properties of the Sync Evaluator and of the working directory\<close>

lemma git_log_hash_eq:
  "git_log_hash P s =
     (py_strip (snd (query P (world s) (cwd s) cmd_log_hash)),
      s\<lparr>issued := issued s @ [cmd_log_hash]\<rparr>)"
  by (simp add: git_log_hash_def execute_subprocess_def split: prod.splits)

lemma current_ref_eq:
  "current_ref P s =
     (current_ref_parse (snd (query P (world s) (cwd s) cmd_branch_vv)),
      s\<lparr>issued := issued s @ [cmd_branch_vv]\<rparr>)"
  by (simp add: current_ref_def git_branch_vv_def execute_subprocess_def split: prod.splits)

lemma determine_remote_name_eq:
  "determine_remote_name P r s =
     (listed_name P (world s) (cwd s) (repo_url r),
      s\<lparr>issued := issued s @ [cmd_remote_verbose]\<rparr>)"
  by (simp add: determine_remote_name_def git_remote_verbose_def execute_subprocess_def
        listed_name_def split: prod.splits)

lemma git_revparse_commit_eq:
  "git_revparse_commit P ref s =
     ((fst (query P (world s) (cwd s) (cmd_revparse_commit ref)),
       py_strip (snd (query P (world s) (cwd s) (cmd_revparse_commit ref)))),
      s\<lparr>issued := issued s @ [cmd_revparse_commit ref]\<rparr>)"
  by (simp add: git_revparse_commit_def execute_subprocess_def split: prod.splits)

lemma expected_ref_of_frame:
  "world (snd (expected_ref_of P U r s)) = world s
   \<and> cwd (snd (expected_ref_of P U r s)) = cwd s
   \<and> stat (snd (expected_ref_of P U r s)) = stat s"
  by (simp add: expected_ref_of_def determine_remote_name_eq seq_def split: sum.splits)

lemma expected_ref_of_fst:
  "world s = world s' \<Longrightarrow> cwd s = cwd s' \<Longrightarrow>
   fst (expected_ref_of P U r s) = fst (expected_ref_of P U r s')"
  by (simp add: expected_ref_of_def determine_remote_name_eq seq_def split: sum.splits)

lemma chdir_stat: "stat (snd (chdir P c s)) = stat s"
  by (simp add: chdir_def)

lemma evaluate_sync_resolved:
  assumes "current \<noteq> []"
    and "fst (query P (world s) (cwd s) (cmd_revparse_commit e)) = 0"
  shows "stat (evaluate_sync P current e s) =
     (stat s)\<lparr>sync_state :=
        (if current = py_strip (snd (query P (world s) (cwd s) (cmd_revparse_commit e)))
         then STATUS_OK else MODEL_MODIFIED)\<rparr>"
  using assms
  by (simp add: evaluate_sync_def EMPTY_STR_def git_revparse_commit_eq set_sync_state_def
        compare_refs_def)

text \<open>
  The comparison itself. When the working copy can be entered, the declaration gives an
  expected reference \<open>e\<close>, the Head State Parser returns a name, the current hash is not
  empty and \<open>e\<close> resolves (status 0), \<open>_check_sync_logic\<close> sets \<open>sync_state\<close> to
  \<open>STATUS_OK\<close> when the current hash equals the hash \<open>e\<close> resolves to, and to
  \<open>MODEL_MODIFIED\<close> otherwise. The names (the parsed current name and \<open>e\<close>) are only
  recorded for display; they take no part in the comparison.
\<close>

lemma sync_compares_hashes:
  assumes dir: "is_dir P (world s) (cwd s) p"
    and exp: "fst (expected_ref_of P U r (s\<lparr>cwd := p\<rparr>)) = Inr e"
    and name: "current_ref_parse (snd (query P (world s) p cmd_branch_vv)) = Inr name"
    and cur: "head_hash P (world s) p \<noteq> []"
    and res: "fst (query P (world s) p (cmd_revparse_commit e)) = 0"
  shows "stat (snd (check_sync_logic P U r p s)) =
     (stat s)\<lparr>current_version := name, expected_version := e,
              sync_state :=
                (if head_hash P (world s) p
                    = py_strip (snd (query P (world s) p (cmd_revparse_commit e)))
                 then STATUS_OK else MODEL_MODIFIED)\<rparr>"
proof -
  let ?s2 = "s\<lparr>cwd := p, issued := issued s @ [cmd_log_hash]\<rparr>"
  obtain res3 s3 where e3: "expected_ref_of P U r ?s2 = (res3, s3)"
    by (cases "expected_ref_of P U r ?s2")
  have "fst (expected_ref_of P U r ?s2) = fst (expected_ref_of P U r (s\<lparr>cwd := p\<rparr>))"
    by (rule expected_ref_of_fst) simp_all
  with exp e3 have r3: "res3 = Inr e" by simp
  from expected_ref_of_frame [of P U r ?s2] e3
  have f3: "world s3 = world s" "cwd s3 = p" "stat s3 = stat s" by simp_all
  let ?s5 = "s3\<lparr>issued := issued s3 @ [cmd_branch_vv],
               stat := (stat s3)\<lparr>current_version := name, expected_version := e\<rparr>\<rparr>"
  have ev: "stat (evaluate_sync P (head_hash P (world s) p) e ?s5) =
     (stat ?s5)\<lparr>sync_state :=
        (if head_hash P (world s) p
            = py_strip (snd (query P (world ?s5) (cwd ?s5) (cmd_revparse_commit e)))
         then STATUS_OK else MODEL_MODIFIED)\<rparr>"
    by (rule evaluate_sync_resolved) (use cur res f3 in simp_all)
  have "check_sync_logic P U r p s =
          chdir P (cwd s) (evaluate_sync P (head_hash P (world s) p) e ?s5)"
    using dir e3 r3 name f3
    by (simp add: check_sync_logic_def chdir_def seq_def git_log_hash_eq current_ref_eq
          head_hash_def Let_def)
  then show ?thesis
    using ev f3 by (simp add: chdir_stat)
qed

lemma git_status_porcelain_v1z_eq:
  "git_status_porcelain_v1z P s =
     (snd (query P (world s) (cwd s) cmd_status_porcelain_v1z),
      s\<lparr>issued := issued s @ [cmd_status_porcelain_v1z]\<rparr>)"
  by (simp add: git_status_porcelain_v1z_def execute_subprocess_def split: prod.splits)

lemma git_status_verbose_eq:
  "git_status_verbose P s =
     (snd (query P (world s) (cwd s) cmd_status_verbose),
      s\<lparr>issued := issued s @ [cmd_status_verbose]\<rparr>)"
  by (simp add: git_status_verbose_def execute_subprocess_def split: prod.splits)

lemma status_summary_eq:
  "status_summary P p s =
     (if is_dir P (world s) (cwd s) p then
        chdir P (cwd s)
          (s\<lparr>cwd := p,
             issued := issued s @ [cmd_status_porcelain_v1z, cmd_status_verbose],
             stat := (stat s)\<lparr>clean_state :=
                        (if snd (query P (world s) p cmd_status_porcelain_v1z) \<noteq> []
                         then DIRTY else STATUS_OK),
                      status_output := snd (query P (world s) p cmd_status_verbose)\<rparr>\<rparr>)
      else (Inl OSError, s))"
  by (simp add: status_summary_def chdir_def seq_def git_status_porcelain_v1z_eq
        git_status_verbose_eq status_v1z_is_dirty_def Let_def)

text \<open>
  Claim C9. When the working-copy path does not exist, \<open>_check_sync\<close> and \<open>status\<close> set
  \<open>sync_state\<close> to \<open>STATUS_ERROR\<close> and run no command. When the path exists and its
  \<open>.git\<close> does not, \<open>_check_sync\<close> sets \<open>sync_state\<close> to \<open>UNKNOWN\<close> and runs no command;
  \<open>status\<close> leaves \<open>UNKNOWN\<close> and runs only the two \<open>git status\<close> queries of the status
  summary. In both cases \<open>_check_sync_logic\<close>, and with it the hash comparison, is skipped.
\<close>

theorem absent_short_circuits:
  "(\<not> path_exists P (world s) (cwd s) p \<longrightarrow>
      check_sync P U r p s = (Inr (), s\<lparr>stat := (stat s)\<lparr>sync_state := STATUS_ERROR\<rparr>\<rparr>)
      \<and> status P U r p s = (Inr (), s\<lparr>stat := (stat s)\<lparr>sync_state := STATUS_ERROR\<rparr>\<rparr>))
   \<and> (path_exists P (world s) (cwd s) p
        \<and> \<not> path_exists P (world s) (cwd s) (os_path_join p ''.git'') \<longrightarrow>
      check_sync P U r p s = (Inr (), s\<lparr>stat := (stat s)\<lparr>sync_state := UNKNOWN\<rparr>\<rparr>)
      \<and> sync_state (stat (snd (status P U r p s))) = UNKNOWN
      \<and> issued (snd (status P U r p s)) =
          issued s @ (if is_dir P (world s) (cwd s) p
                      then [cmd_status_porcelain_v1z, cmd_status_verbose] else []))"
  by (simp add: check_sync_def status_def seq_def set_sync_state_def status_summary_eq
        chdir_def Let_def)

lemma chdir_Inr: "chdir P c s = (Inr u, s') \<Longrightarrow> cwd s' = c"
  by (auto simp: chdir_def split: if_splits)

lemma check_sync_logic_cwd:
  "fst (check_sync_logic P U r p s) = Inr () \<Longrightarrow> cwd (snd (check_sync_logic P U r p s)) = cwd s"
  by (auto simp: check_sync_logic_def seq_def chdir_def Let_def
        split: prod.splits sum.splits if_splits)

lemma status_summary_cwd:
  "fst (status_summary P p s) = Inr () \<Longrightarrow> cwd (snd (status_summary P p s)) = cwd s"
  by (auto simp: status_summary_eq chdir_def split: if_splits)

lemma checkout_ref_cwd:
  "fst (checkout_ref P U r p v s) = Inr () \<Longrightarrow> cwd (snd (checkout_ref P U r p v s)) = cwd s"
  by (auto simp: checkout_ref_def seq_def chdir_def Let_def
        split: prod.splits sum.splits if_splits)

lemma clone_repo_cwd:
  "fst (clone_repo P r b n v s) = Inr () \<Longrightarrow> cwd (snd (clone_repo P r b n v s)) = cwd s"
  by (auto simp: clone_repo_def seq_def chdir_def Let_def
        split: prod.splits sum.splits if_splits)

lemma check_sync_cwd:
  "fst (check_sync P U r p s) = Inr () \<Longrightarrow> cwd (snd (check_sync P U r p s)) = cwd s"
  using check_sync_logic_cwd [of P U r p s]
  by (auto simp: check_sync_def set_sync_state_def Let_def split: if_splits)

lemma status_cwd:
  assumes "fst (status P U r p s) = Inr ()"
  shows "cwd (snd (status P U r p s)) = cwd s"
proof -
  obtain res s1 where c: "check_sync P U r p s = (res, s1)"
    by (cases "check_sync P U r p s")
  with assms have r: "res = Inr ()"
    by (cases res) (simp_all add: status_def seq_def)
  with c check_sync_cwd [of P U r p s] have c1: "cwd s1 = cwd s" by simp
  show ?thesis
    using assms c r c1 status_summary_cwd [of P p s1]
    by (auto simp: status_def seq_def split: if_splits)
qed

lemma checkout_cwd:
  assumes "fst (checkout P U r b n v s) = Inr ()"
  shows "cwd (snd (checkout P U r b n v s)) = cwd s"
proof (cases "path_exists P (world s) (cwd s) (os_path_join b n)")
  case True
  with assms checkout_ref_cwd [of P U r "os_path_join b n" v s] show ?thesis
    by (simp add: checkout_def seq_def Let_def)
next
  case False
  obtain res s1 where c: "clone_repo P r b n v s = (res, s1)"
    by (cases "clone_repo P r b n v s")
  with assms False have r: "res = Inr ()"
    by (cases res) (simp_all add: checkout_def seq_def Let_def)
  with c clone_repo_cwd [of P r b n v s] have c1: "cwd s1 = cwd s" by simp
  show ?thesis
    using assms False c r c1 checkout_ref_cwd [of P U r "os_path_join b n" v s1]
    by (simp add: checkout_def seq_def Let_def)
qed

lemma sync_compares_hashes_example:
  "is_dir example_port (world example_state) (cwd example_state) ''/work/repo''
   \<and> fst (expected_ref_of example_port example_utils
             (tag_repo ''https://example/repo.git'' ''rel1'')
             (example_state\<lparr>cwd := ''/work/repo''\<rparr>)) = Inr ''rel1''
   \<and> current_ref_parse (snd (query example_port (world example_state) ''/work/repo''
                              cmd_branch_vv)) = Inr ''origin/master''
   \<and> head_hash example_port (world example_state) ''/work/repo'' = ''36418b4f''
   \<and> query example_port (world example_state) ''/work/repo'' (cmd_revparse_commit ''rel1'')
       = (0, ''36418b4f'' @ nl)
   \<and> stat (snd (check_sync_logic example_port example_utils
                  (tag_repo ''https://example/repo.git'' ''rel1'') ''/work/repo'' example_state))
       = (stat example_state)\<lparr>current_version := ''origin/master'',
                               expected_version := ''rel1'', sync_state := STATUS_OK\<rparr>"
proof -
  have dir: "is_dir example_port (world example_state) (cwd example_state) ''/work/repo''"
    by code_simp
  have exp: "fst (expected_ref_of example_port example_utils
             (tag_repo ''https://example/repo.git'' ''rel1'')
             (example_state\<lparr>cwd := ''/work/repo''\<rparr>)) = Inr ''rel1''"
    by (simp add: expected_ref_of_def tag_repo_def)
  have name: "current_ref_parse (snd (query example_port (world example_state) ''/work/repo''
                              cmd_branch_vv)) = Inr ''origin/master''"
    by code_simp
  have hh: "head_hash example_port (world example_state) ''/work/repo'' = ''36418b4f''"
    by code_simp
  have q: "query example_port (world example_state) ''/work/repo'' (cmd_revparse_commit ''rel1'')
       = (0, ''36418b4f'' @ nl)"
    by code_simp
  have st: "py_strip (''36418b4f'' @ nl) = ''36418b4f''"
    by code_simp
  have cur: "head_hash example_port (world example_state) ''/work/repo'' \<noteq> []"
    using hh by simp
  have res: "fst (query example_port (world example_state) ''/work/repo''
                    (cmd_revparse_commit ''rel1'')) = 0"
    using q by simp
  from sync_compares_hashes [OF dir exp name cur res] dir exp name hh q st
  show ?thesis by simp
qed

text \<open>
  Claim C1. The claim fails where the Head State Parser aborts. The working copy is at
  the commit \<open>abc123\<close>, detached from \<open>origin/feature-2\<close>, and the declaration asks for
  the hash \<open>abc123\<close>: the current hash and the expected reference resolve to the same
  commit, so the verdict should be \<open>STATUS_OK\<close>. \<open>_check_sync_logic\<close> calls \<open>_current_ref\<close>
  for the display name before it compares; the commit subject on the active line
  contains "detached at", \<open>_current_ref\<close> raises its fatal error, and \<open>sync_state\<close> keeps
  the value it had.
\<close>

theorem sync_aborts_in_parser:
  "head_hash example_port advanced_world ''/work/repo'' = ''abc123''
   \<and> query example_port advanced_world ''/work/repo'' (cmd_revparse_commit ''abc123'')
       = (0, ''abc123'' @ nl)
   \<and> sync_state (stat (example_state\<lparr>world := advanced_world\<rparr>)) = UNKNOWN
   \<and> fst (check_sync_logic example_port example_utils
            (hash_repo ''https://example/repo.git'' ''abc123'') ''/work/repo''
            (example_state\<lparr>world := advanced_world\<rparr>))
       = Inl (Fatal (dev_error
           (''DEV_ERROR: regex to detect '' @ dq @ ''detached at'' @ dq @ '' head state failed!'')
           ''* (HEAD detached from origin/feature-2) abc123 fix detached at parsing''
           (w_branch_vv advanced_world)))
   \<and> sync_state (stat (snd (check_sync_logic example_port example_utils
            (hash_repo ''https://example/repo.git'' ''abc123'') ''/work/repo''
            (example_state\<lparr>world := advanced_world\<rparr>)))) = UNKNOWN"
  by code_simp

text \<open>
  A second way into the same abort: with the tag \<open>v1.0+rc1\<close> checked out, the current
  hash and the expected tag resolve to the same commit, but the active line does not
  match \<open>RE_DETACHED_AT\<close> (the \<open>+\<close> is outside its character class), and \<open>_current_ref\<close>
  raises its fatal error before the comparison.
\<close>

lemma sync_aborts_on_tag_with_plus:
  "head_hash example_port detached_world ''/work/repo'' = ''36418b4f''
   \<and> fst (query example_port detached_world ''/work/repo'' (cmd_revparse_commit ''v1.0+rc1'')) = 0
   \<and> py_strip (snd (query example_port detached_world ''/work/repo''
                      (cmd_revparse_commit ''v1.0+rc1''))) = ''36418b4f''
   \<and> sync_state (stat (example_state\<lparr>world := detached_world\<rparr>)) = UNKNOWN
   \<and> fst (check_sync_logic example_port example_utils
            (tag_repo ''https://example/repo.git'' ''v1.0+rc1'') ''/work/repo''
            (example_state\<lparr>world := detached_world\<rparr>))
       = Inl (Fatal (dev_error
           (''DEV_ERROR: regex to detect '' @ dq @ ''detached at'' @ dq @ '' head state failed!'')
           ''* (HEAD detached at v1.0+rc1) 36418b4f Work on feature2''
           (w_branch_vv detached_world)))
   \<and> sync_state (stat (snd (check_sync_logic example_port example_utils
            (tag_repo ''https://example/repo.git'' ''v1.0+rc1'') ''/work/repo''
            (example_state\<lparr>world := detached_world\<rparr>)))) = UNKNOWN"
  by code_simp

text \<open>
  Claim C8, as amended. For a declaration with none of branch, tag and hash:
  \<open>_check_sync_logic\<close>, once it has entered the working copy, aborts with the fatal
  configuration error that names the repository; the check comes after the query of the
  current hash, so \<open>git log -1\<close> is the one command that has run, and the working
  directory is the working copy. When the directory cannot be entered, \<open>os.chdir\<close> fails
  and no command runs. \<open>_check_sync\<close> and \<open>status\<close> reach \<open>_check_sync_logic\<close>, and with
  it the error, only when the path and its \<open>.git\<close> exist; otherwise they return with
  \<open>STATUS_ERROR\<close> or \<open>UNKNOWN\<close> and raise nothing.
\<close>

theorem none_set_aborts_after_log:
  assumes "repo_branch r = []" and "repo_hash r = []" and "repo_tag r = []"
  shows "check_sync_logic P U r p s =
           (if is_dir P (world s) (cwd s) p
            then (Inl (Fatal (msg_none_set r)),
                  s\<lparr>cwd := p, issued := issued s @ [cmd_log_hash]\<rparr>)
            else (Inl OSError, s))
         \<and> check_sync P U r p s =
           (if \<not> path_exists P (world s) (cwd s) p
            then (Inr (), s\<lparr>stat := (stat s)\<lparr>sync_state := STATUS_ERROR\<rparr>\<rparr>)
            else if \<not> path_exists P (world s) (cwd s) (os_path_join p ''.git'')
            then (Inr (), s\<lparr>stat := (stat s)\<lparr>sync_state := UNKNOWN\<rparr>\<rparr>)
            else check_sync_logic P U r p s)
         \<and> (path_exists P (world s) (cwd s) p
              \<and> path_exists P (world s) (cwd s) (os_path_join p ''.git'') \<longrightarrow>
            status P U r p s = check_sync_logic P U r p s)"
proof -
  have a: "check_sync_logic P U r p s =
           (if is_dir P (world s) (cwd s) p
            then (Inl (Fatal (msg_none_set r)),
                  s\<lparr>cwd := p, issued := issued s @ [cmd_log_hash]\<rparr>)
            else (Inl OSError, s))"
    using assms
    by (simp add: check_sync_logic_def chdir_def seq_def git_log_hash_eq expected_ref_of_def
          Let_def)
  have b: "check_sync P U r p s =
           (if \<not> path_exists P (world s) (cwd s) p
            then (Inr (), s\<lparr>stat := (stat s)\<lparr>sync_state := STATUS_ERROR\<rparr>\<rparr>)
            else if \<not> path_exists P (world s) (cwd s) (os_path_join p ''.git'')
            then (Inr (), s\<lparr>stat := (stat s)\<lparr>sync_state := UNKNOWN\<rparr>\<rparr>)
            else check_sync_logic P U r p s)"
    by (simp add: check_sync_def set_sync_state_def Let_def)
  have c: "path_exists P (world s) (cwd s) p
              \<and> path_exists P (world s) (cwd s) (os_path_join p ''.git'') \<longrightarrow>
            status P U r p s = check_sync_logic P U r p s"
    using a b by (simp add: status_def seq_def)
  from a b c show ?thesis by blast
qed

theorem none_set_aborts_after_log_witness:
  "repo_branch empty_repo = [] \<and> repo_hash empty_repo = [] \<and> repo_tag empty_repo = []
   \<and> is_dir example_port (world example_state) (cwd example_state) ''/work/repo''
   \<and> path_exists example_port (world example_state) (cwd example_state) ''/work/repo''
   \<and> path_exists example_port (world example_state) (cwd example_state)
        (os_path_join ''/work/repo'' ''.git'')
   \<and> status example_port example_utils empty_repo ''/work/repo'' example_state
       = (Inl (Fatal (msg_none_set empty_repo)),
          example_state\<lparr>cwd := ''/work/repo'', issued := issued example_state @ [cmd_log_hash]\<rparr>)
   \<and> check_sync example_port example_utils empty_repo ''/work/repo'' example_state
       = (Inl (Fatal (msg_none_set empty_repo)),
          example_state\<lparr>cwd := ''/work/repo'', issued := issued example_state @ [cmd_log_hash]\<rparr>)"
proof -
  have a: "repo_branch empty_repo = []" and b: "repo_hash empty_repo = []"
    and c: "repo_tag empty_repo = []"
    by (simp_all add: empty_repo_def)
  have d: "is_dir example_port (world example_state) (cwd example_state) ''/work/repo''"
    by code_simp
  have e: "path_exists example_port (world example_state) (cwd example_state) ''/work/repo''"
    by code_simp
  have f: "path_exists example_port (world example_state) (cwd example_state)
        (os_path_join ''/work/repo'' ''.git'')"
    by code_simp
  from none_set_aborts_after_log [OF a b c, of example_port example_utils "''/work/repo''"
         example_state] a b c d e f
  show ?thesis by simp
qed

text \<open>
  Claim C8 as stated fails: no command has run before the call, and at the abort
  \<open>git log -1 --format="%H"\<close> has run.
\<close>

theorem none_set_counterexample:
  "issued example_state = []
   \<and> fst (check_sync_logic example_port example_utils empty_repo ''/work/repo'' example_state)
       = Inl (Fatal (msg_none_set empty_repo))
   \<and> issued (snd (check_sync_logic example_port example_utils empty_repo ''/work/repo''
                    example_state)) = [cmd_log_hash]"
  by code_simp

theorem absent_short_circuits_witness:
  "\<not> path_exists example_port (world example_state) (cwd example_state) ''/work/none''
   \<and> status example_port example_utils empty_repo ''/work/none'' example_state
       = (Inr (), example_state\<lparr>stat := (stat example_state)\<lparr>sync_state := STATUS_ERROR\<rparr>\<rparr>)
   \<and> path_exists example_port (world example_state) (cwd example_state) ''/work/plain''
   \<and> \<not> path_exists example_port (world example_state) (cwd example_state)
         (os_path_join ''/work/plain'' ''.git'')
   \<and> sync_state (stat (snd (status example_port example_utils empty_repo ''/work/plain''
                             example_state))) = UNKNOWN
   \<and> issued (snd (status example_port example_utils empty_repo ''/work/plain'' example_state))
       = issued example_state @ [cmd_status_porcelain_v1z, cmd_status_verbose]"
proof -
  have a: "\<not> path_exists example_port (world example_state) (cwd example_state) ''/work/none''"
    by code_simp
  have b: "path_exists example_port (world example_state) (cwd example_state) ''/work/plain''"
    by code_simp
  have c: "\<not> path_exists example_port (world example_state) (cwd example_state)
         (os_path_join ''/work/plain'' ''.git'')"
    by code_simp
  have d: "is_dir example_port (world example_state) (cwd example_state) ''/work/plain''"
    by code_simp
  from absent_short_circuits [of example_port example_state "''/work/none''" example_utils
         empty_repo]
       absent_short_circuits [of example_port example_state "''/work/plain''" example_utils
         empty_repo]
       a b c d
  show ?thesis by simp
qed

text \<open>
  Claim C2 as stated fails on an error path: a checkout of a reference that does not
  exist aborts in the validation, behind the \<open>os.chdir(repo_dir)\<close> and before the
  \<open>os.chdir(cwd)\<close>, and the working directory stays in the working copy.
\<close>

theorem cwd_not_restored_counterexample:
  "cwd example_state = ''/work''
   \<and> fst (checkout_ref example_port example_utils
            (tag_repo ''https://example/repo.git'' ''nope'') ''/work/repo'' 0 example_state)
       = Inl (Fatal (msg_invalid_ref (tag_repo ''https://example/repo.git'' ''nope'') ''nope''))
   \<and> cwd (snd (checkout_ref example_port example_utils
            (tag_repo ''https://example/repo.git'' ''nope'') ''/work/repo'' 0 example_state))
       = ''/work/repo''"
  by code_simp

section \<open>Properties of the Head State Parser and of the remote name\<close>

lemma scenario_detached_at:
  "current_ref_parse ''* (HEAD detached at origin/feature-2)'' = Inr ''origin/feature-2''"
  by code_simp

lemma scenario_detached_from:
  "current_ref_parse ''* (HEAD detached from origin/feature-2) abc123'' = Inr ''abc123''"
  by code_simp

text \<open>
  Claim C3. The two scenarios of the claim hold (the lemmas above). The general statement
  for the "detached from" form fails where the commit subject on the active line contains
  the words "detached at": the line matches \<open>RE_DETACHED_FROM\<close> with the hash \<open>abc123\<close>,
  but \<open>_current_ref\<close> tests \<open>'detached at' in ref\<close> on the whole line first, finds no match
  of \<open>RE_DETACHED_AT\<close> and raises its fatal error instead of returning the hash.
\<close>

theorem detached_from_with_message:
  "RE_DETACHED_FROM ''* (HEAD detached from origin/feature-2) abc123 fix detached at parsing''
     = Some ''abc123''
   \<and> current_ref_parse ''* (HEAD detached from origin/feature-2) abc123 fix detached at parsing''
     = Inl (Fatal (dev_error
         (''DEV_ERROR: regex to detect '' @ dq @ ''detached at'' @ dq @ '' head state failed!'')
         ''* (HEAD detached from origin/feature-2) abc123 fix detached at parsing''
         ''* (HEAD detached from origin/feature-2) abc123 fix detached at parsing''))"
  by code_simp

lemma dev_error_contains:
  "contains ref (dev_error msg ref git_output) \<and> contains git_output (dev_error msg ref git_output)"
proof -
  have a: "dev_error msg ref git_output
            = (msg @ nl @ ''ref:'' @ nl) @ ref @ (nl @ ''git_output'' @ nl @ git_output @ nl)"
    by (simp add: dev_error_def)
  have b: "dev_error msg ref git_output
            = (msg @ nl @ ''ref:'' @ nl @ ref @ nl @ ''git_output'' @ nl) @ git_output @ nl"
    by (simp add: dev_error_def)
  have "contains ref (dev_error msg ref git_output)"
    by (subst a) (rule contains_append)
  moreover have "contains git_output (dev_error msg ref git_output)"
    by (subst b) (rule contains_append)
  ultimately show ?thesis by simp
qed

lemma fatal_has_diagnostic:
  assumes "current_ref_parse git_output = Inl (Fatal m)"
  shows "contains (first_active (splitlines git_output)) m \<and> contains git_output m"
  using assms dev_error_contains
  by (auto simp: current_ref_parse_def Let_def split: if_splits option.splits list.splits)

text \<open>
  Claim C7. An abort of the parser in one of its three guarded branches carries the
  active line and the whole listing (\<open>fatal_has_diagnostic\<close> above). The last branch,
  \<open>ref.split()[1]\<close>, is not guarded: an active line with a single token matches no
  pattern and raises a bare \<open>IndexError\<close>, without the diagnostic.
\<close>

theorem active_line_without_second_token:
  "first_active (splitlines ''*'') = ''*''
   \<and> current_ref_parse ''*'' = Inl IndexError
   \<and> current_ref_parse (''  master 9b75494 [origin/master] Initialize repository.'' @ nl
                          @ ''*feature3'' @ nl) = Inl IndexError"
  by code_simp

lemma fold_filter:
  "fold (\<lambda>unsafe b. filter (\<lambda>c. c \<noteq> unsafe) b) us s = filter (\<lambda>c. c \<notin> set us) s"
  by (induction us arbitrary: s) (auto intro: filter_cong)

lemma split_on_from_segments:
  "sep \<notin> set cur \<Longrightarrow> \<forall>seg \<in> set (split_on_from sep cur s). sep \<notin> set seg"
proof (induction s arbitrary: cur)
  case Nil
  then show ?case by simp
next
  case (Cons c s)
  show ?case
  proof (cases "c = sep")
    case True
    with Cons.prems Cons.IH [of "[]"] show ?thesis by simp
  next
    case False
    with Cons.prems Cons.IH [of "c # cur"] show ?thesis by simp
  qed
qed

lemma split_on_from_nonempty: "split_on_from sep cur s \<noteq> []"
  by (induction s arbitrary: cur) auto

lemma split_on_last: "sep \<notin> set (last (split_on sep s))"
proof -
  have "last (split_on sep s) \<in> set (split_on sep s)"
    by (simp add: split_on_def split_on_from_nonempty)
  then show ?thesis
    using split_on_from_segments [of sep "[]" s] by (simp add: split_on_def)
qed

text \<open>
  Claim C5, as amended. The name is a function of the URL: with the path that the URL
  helpers give split at \<open>/\<close>, it is the last but one segment without the unsafe
  characters, an underscore, and the last segment as it is; a path of a single segment
  raises \<open>IndexError\<close>. The name never contains the path separator \<open>/\<close>.
\<close>

theorem remote_name_shape:
  "(let segs = split_on (CHR ''/'')
                 (if is_remote_url U (repo_url r) then split_remote_url U (repo_url r)
                  else expand_local_url U (repo_url r) (repo_name r))
    in create_remote_name U r =
         (if length segs < 2 then Inl IndexError
          else Inr (filter (\<lambda>c. c \<notin> set unsafe_characters) (segs ! (length segs - 2))
                    @ ''_'' @ last segs)))
   \<and> (\<forall>nm. create_remote_name U r = Inr nm \<longrightarrow> CHR ''/'' \<notin> set nm)"
proof -
  have u: "CHR ''/'' \<in> set unsafe_characters"
    by (simp add: unsafe_characters_def)
  show ?thesis
    using u split_on_last [of "CHR ''/''"]
    by (auto simp: create_remote_name_def Let_def fold_filter)
qed

text \<open>
  Claim C5 as stated fails: the unsafe characters are removed from the last but one
  segment only, so a shell metacharacter in the last segment stays in the name.
\<close>

theorem remote_name_counterexample:
  "create_remote_name example_utils (branch_repo ''https://example/re$po.git'' ''release'')
     = Inr ''example_re$po.git''
   \<and> CHR ''$'' \<in> set unsafe_characters
   \<and> CHR ''$'' \<in> set ''example_re$po.git''"
  by code_simp

theorem remote_name_shape_witness:
  "split_on (CHR ''/'') (split_remote_url example_utils ''https://example/repo.git'')
     = [''example'', ''repo.git'']
   \<and> create_remote_name example_utils (branch_repo ''https://example/repo.git'' ''release'')
     = Inr ''example_repo.git''
   \<and> CHR ''/'' \<notin> set ''example_repo.git''"
proof -
  have a: "is_remote_url example_utils ''https://example/repo.git''"
    by code_simp
  have b: "split_on (CHR ''/'') (split_remote_url example_utils ''https://example/repo.git'')
     = [''example'', ''repo.git'']"
    by code_simp
  have c: "repo_url (branch_repo ''https://example/repo.git'' ''release'')
             = ''https://example/repo.git''"
    by (simp add: branch_repo_def)
  have d: "filter (\<lambda>c. c \<notin> set unsafe_characters) ''example'' = ''example''"
    by code_simp
  from remote_name_shape [of example_utils "branch_repo ''https://example/repo.git'' ''release''"]
       a b c d
  show ?thesis by (simp add: Let_def)
qed

section \<open>Properties of the remote bindings\<close>

lemma py_split_from_tokens:
  "\<forall>c\<in>set cur. \<not> is_space c \<Longrightarrow>
   \<forall>t\<in>set (py_split_from cur s). t \<noteq> [] \<and> (\<forall>c\<in>set t. \<not> is_space c)"
proof (induction s arbitrary: cur)
  case Nil
  then show ?case by simp
next
  case (Cons c s)
  show ?case
  proof (cases "is_space c")
    case True
    with Cons.prems Cons.IH [of "[]"] show ?thesis by simp
  next
    case False
    with Cons.prems Cons.IH [of "c # cur"] show ?thesis by simp
  qed
qed

lemma py_split_token:
  "t \<in> set (py_split s) \<Longrightarrow> t \<noteq> [] \<and> (\<forall>c\<in>set t. \<not> is_space c)"
  using py_split_from_tokens [of "[]" s] by (simp add: py_split_def)

lemma dropWhile_id: "xs \<noteq> [] \<Longrightarrow> \<not> P (hd xs) \<Longrightarrow> dropWhile P xs = xs"
  by (cases xs) simp_all

lemma py_strip_token:
  assumes "t \<noteq> []" and "\<forall>c\<in>set t. \<not> is_space c"
  shows "py_strip t = t"
proof -
  have a: "dropWhile is_space t = t"
    using assms by (intro dropWhile_id) simp_all
  have "rev t \<noteq> []" using assms by simp
  moreover have "\<not> is_space (hd (rev t))"
    using assms by (simp add: hd_rev)
  ultimately have b: "dropWhile is_space (rev t) = rev t"
    by (rule dropWhile_id)
  show ?thesis by (simp add: py_strip_def a b)
qed

lemma py_split_strip:
  "t \<in> set (py_split s) \<Longrightarrow> py_strip t = t \<and> t \<noteq> []"
  using py_split_token [of t s] py_strip_token [of t] by blast

lemma determine_loop_found:
  "determine_loop url ls = Inr n \<Longrightarrow> n \<noteq> [] \<Longrightarrow>
   \<exists>l\<in>set ls. \<exists>rest. py_split (py_strip l) = n # url # rest"
proof (induction ls)
  case Nil
  then show ?case by simp
next
  case (Cons line lines)
  show ?case
  proof (cases "py_strip line = []")
    case True
    with Cons show ?thesis by simp
  next
    case False
    show ?thesis
    proof (cases "py_split (py_strip line)")
      case Nil
      with False Cons.prems show ?thesis by simp
    next
      case c1: (Cons nm ts)
      show ?thesis
      proof (cases ts)
        case Nil
        with False c1 Cons.prems show ?thesis by simp
      next
        case c2: (Cons u rest)
        from c1 c2 have "nm \<in> set (py_split (py_strip line))" "u \<in> set (py_split (py_strip line))"
          by simp_all
        then have tok: "py_strip nm = nm" "py_strip u = u"
          using py_split_strip by blast+
        show ?thesis
        proof (cases "url = u")
          case True
          with False c1 c2 tok Cons.prems have "n = nm" by simp
          with True c1 c2 show ?thesis by simp
        next
          case neq: False
          with False c1 c2 tok Cons.prems have "determine_loop url lines = Inr n" by simp
          with Cons.IH Cons.prems show ?thesis by simp
        qed
      qed
    qed
  qed
qed

lemma determine_loop_none:
  "determine_loop url ls = Inr [] \<Longrightarrow>
   \<forall>l\<in>set ls. \<forall>nm u rest. py_split (py_strip l) = nm # u # rest \<longrightarrow> u \<noteq> url"
proof (induction ls)
  case Nil
  then show ?case by simp
next
  case (Cons line lines)
  show ?case
  proof (cases "py_strip line = []")
    case True
    then have "py_split (py_strip line) = []" by (simp add: py_split_def)
    with True Cons show ?thesis by simp
  next
    case False
    show ?thesis
    proof (cases "py_split (py_strip line)")
      case Nil
      with False Cons.prems show ?thesis by simp
    next
      case c1: (Cons nm ts)
      show ?thesis
      proof (cases ts)
        case Nil
        with False c1 Cons.prems show ?thesis by simp
      next
        case c2: (Cons u rest)
        from c1 c2 have "nm \<in> set (py_split (py_strip line))" "u \<in> set (py_split (py_strip line))"
          by simp_all
        then have tok: "py_strip nm = nm" "py_strip u = u" "nm \<noteq> []"
          using py_split_strip by blast+
        show ?thesis
        proof (cases "url = u")
          case True
          with False c1 c2 tok Cons.prems show ?thesis by simp
        next
          case neq: False
          with False c1 c2 tok Cons.prems have "determine_loop url lines = Inr []" by simp
          with Cons.IH have "\<forall>l\<in>set lines. \<forall>nm u rest.
              py_split (py_strip l) = nm # u # rest \<longrightarrow> u \<noteq> url" by simp
          with neq c1 c2 show ?thesis by auto
        qed
      qed
    qed
  qed
qed

lemma find_or_create_remote_eq:
  "find_or_create_remote P U r s =
    (case listed_name P (world s) (cwd s) (repo_url r) of
       Inl e \<Rightarrow> (Inl e, s\<lparr>issued := issued s @ [cmd_remote_verbose]\<rparr>)
     | Inr n \<Rightarrow>
         if n = [] then
           (case create_remote_name U r of
              Inl e \<Rightarrow> (Inl e, s\<lparr>issued := issued s @ [cmd_remote_verbose]\<rparr>)
            | Inr m \<Rightarrow>
                (Inr m,
                 s\<lparr>world := effect P (world s) (cwd s) (cmd_remote_add m (repo_url r)),
                   issued := issued s @ [cmd_remote_verbose, cmd_remote_add m (repo_url r)]\<rparr>))
         else (Inr n, s\<lparr>issued := issued s @ [cmd_remote_verbose]\<rparr>))"
  by (simp add: find_or_create_remote_def determine_remote_name_eq seq_def git_remote_add_def
        execute_effect_def split: sum.splits)

lemma is_remote_add_simps:
  "is_remote_add (cmd_remote_add m u)"
  "\<not> is_remote_add cmd_remote_verbose"
  "\<not> is_remote_add (cmd_fetch n)"
  "\<not> is_remote_add (cmd_checkout x)"
  by (simp_all add: is_remote_add_def cmd_remote_add_def cmd_remote_verbose_def cmd_fetch_def
        cmd_checkout_def)

lemma probe_cmds_no_add: "filter is_remote_add (probe_cmds ref rn) = []"
  by (auto simp: probe_cmds_def is_remote_add_def cmd_showref_tag_def cmd_lsremote_branch_def
        cmd_showref_branch_def cmd_revparse_commit_def split: option.splits)

lemma external_abort:
  "find_or_create_remote P U r s = (Inl e, s2) \<Longrightarrow>
   checkout_external_ref P U r v s = (Inl e, s2)"
  by (simp add: checkout_external_ref_def seq_def Let_def)

lemma external_tail:
  assumes "find_or_create_remote P U r s = (Inr n, s2)"
  shows "\<exists>X. issued (snd (checkout_external_ref P U r v s)) = issued s2 @ X
            \<and> filter is_remote_add X = []"
proof -
  let ?s3 = "git_fetch P n s2"
  have i3: "issued ?s3 = issued s2 @ [cmd_fetch n]"
    by (simp add: git_fetch_def execute_effect_def)
  let ?ref = "declared_ref r"
  let ?p = "probe_cmds ?ref (Some n)"
  obtain res s4 where v: "check_for_valid_ref P r ?ref (Some n) ?s3 = (res, s4)"
    by (cases "check_for_valid_ref P r ?ref (Some n) ?s3")
  have "issued s4 = issued ?s3 @ ?p \<or> issued s4 = issued ?s3 @ ?p @ ?p"
    using v by (auto simp: check_for_valid_ref_eq split: if_splits)
  then obtain Y where y: "issued s4 = issued s2 @ [cmd_fetch n] @ Y"
    and yn: "filter is_remote_add Y = []"
    using i3 probe_cmds_no_add [of ?ref "Some n"] by auto
  show ?thesis
  proof (cases res)
    case (Inl e)
    with assms v have "checkout_external_ref P U r v s = (Inl e, s4)"
      by (simp add: checkout_external_ref_def seq_def Let_def)
    with y yn show ?thesis by (simp add: is_remote_add_simps)
  next
    case (Inr b)
    with assms v have "issued (snd (checkout_external_ref P U r v s))
        = issued s4 @ [cmd_checkout (if repo_branch r \<noteq> [] then n @ ''/'' @ ?ref else ?ref)]"
      by (simp add: checkout_external_ref_def seq_def Let_def git_checkout_ref_def
            execute_effect_def)
    with y yn show ?thesis by (simp add: is_remote_add_simps)
  qed
qed

lemma issued_since_append: "issued s' = issued s @ X \<Longrightarrow> issued_since s s' = X"
  by (simp add: issued_since_def)

lemma no_add_when_listed:
  assumes "listed_name P (world s) (cwd s) (repo_url r) = Inr n" and "n \<noteq> []"
  shows "filter is_remote_add (issued_since s (snd (checkout_external_ref P U r v s))) = []"
proof -
  let ?s2 = "s\<lparr>issued := issued s @ [cmd_remote_verbose]\<rparr>"
  have f: "find_or_create_remote P U r s = (Inr n, ?s2)"
    using assms by (simp add: find_or_create_remote_eq)
  from external_tail [OF f, of v] obtain X where
    i: "issued (snd (checkout_external_ref P U r v s)) = issued s @ ([cmd_remote_verbose] @ X)"
    and x: "filter is_remote_add X = []" by auto
  from i have "issued_since s (snd (checkout_external_ref P U r v s)) = [cmd_remote_verbose] @ X"
    by (rule issued_since_append)
  with x show ?thesis by (simp add: is_remote_add_simps)
qed

lemma add_when_created:
  assumes "listed_name P (world s) (cwd s) (repo_url r) = Inr []"
    and "create_remote_name U r = Inr m"
  shows "filter is_remote_add (issued_since s (snd (checkout_external_ref P U r v s)))
           = [cmd_remote_add m (repo_url r)]"
proof -
  let ?s2 = "s\<lparr>world := effect P (world s) (cwd s) (cmd_remote_add m (repo_url r)),
               issued := issued s @ [cmd_remote_verbose, cmd_remote_add m (repo_url r)]\<rparr>"
  have f: "find_or_create_remote P U r s = (Inr m, ?s2)"
    using assms by (simp add: find_or_create_remote_eq)
  from external_tail [OF f, of v] obtain X where
    i: "issued (snd (checkout_external_ref P U r v s))
       = issued s @ ([cmd_remote_verbose, cmd_remote_add m (repo_url r)] @ X)"
    and x: "filter is_remote_add X = []" by auto
  from i have "issued_since s (snd (checkout_external_ref P U r v s))
       = [cmd_remote_verbose, cmd_remote_add m (repo_url r)] @ X"
    by (rule issued_since_append)
  with x show ?thesis by (simp add: is_remote_add_simps)
qed

lemma abort_before_add:
  assumes "listed_name P (world s) (cwd s) (repo_url r) = Inl e
           \<or> (listed_name P (world s) (cwd s) (repo_url r) = Inr []
               \<and> create_remote_name U r = Inl e)"
  shows "checkout_external_ref P U r v s = (Inl e, s\<lparr>issued := issued s @ [cmd_remote_verbose]\<rparr>)"
proof -
  have "find_or_create_remote P U r s = (Inl e, s\<lparr>issued := issued s @ [cmd_remote_verbose]\<rparr>)"
    using assms by (auto simp: find_or_create_remote_eq)
  then show ?thesis by (rule external_abort)
qed

lemma add_only_when_unlisted:
  assumes "list_ex is_remote_add (issued_since s (snd (checkout_external_ref P U r v s)))"
  shows "listed_name P (world s) (cwd s) (repo_url r) = Inr []
         \<and> (\<exists>m. create_remote_name U r = Inr m)"
proof (cases "listed_name P (world s) (cwd s) (repo_url r)")
  case (Inl e)
  then have "checkout_external_ref P U r v s
      = (Inl e, s\<lparr>issued := issued s @ [cmd_remote_verbose]\<rparr>)"
    by (intro abort_before_add) simp
  with assms show ?thesis by (simp add: issued_since_def is_remote_add_simps)
next
  case (Inr n)
  show ?thesis
  proof (cases "n = []")
    case False
    with Inr no_add_when_listed [of P s r n U v] assms show ?thesis
      by (simp add: list_ex_iff filter_empty_conv)
  next
    case True
    show ?thesis
    proof (cases "create_remote_name U r")
      case (Inl e)
      with Inr True have "checkout_external_ref P U r v s
          = (Inl e, s\<lparr>issued := issued s @ [cmd_remote_verbose]\<rparr>)"
        by (intro abort_before_add) simp
      with assms show ?thesis by (simp add: issued_since_def is_remote_add_simps)
    next
      case c: (Inr m)
      with Inr True show ?thesis by simp
    qed
  qed
qed

lemma second_run_adds_nothing:
  assumes h: "url_listed P (world s) (cwd s) (repo_url r)
              \<or> list_ex is_remote_add (issued_since s (snd (checkout_external_ref P U r v s)))
              \<longrightarrow> url_listed P (world (snd (checkout_external_ref P U r v s)))
                     (cwd (snd (checkout_external_ref P U r v s))) (repo_url r)"
  shows "filter is_remote_add
           (issued_since (snd (checkout_external_ref P U r v s))
              (snd (checkout_external_ref P U r v (snd (checkout_external_ref P U r v s))))) = []"
proof -
  let ?s1 = "snd (checkout_external_ref P U r v s)"
  show ?thesis
  proof (cases "url_listed P (world ?s1) (cwd ?s1) (repo_url r)")
    case True
    then obtain n where "listed_name P (world ?s1) (cwd ?s1) (repo_url r) = Inr n" "n \<noteq> []"
      by (auto simp: url_listed_def split: sum.splits)
    then show ?thesis by (rule no_add_when_listed)
  next
    case False
    with h have nl: "\<not> url_listed P (world s) (cwd s) (repo_url r)"
      and na: "\<not> list_ex is_remote_add (issued_since s ?s1)" by auto
    have "\<exists>e. listed_name P (world s) (cwd s) (repo_url r) = Inl e
           \<or> (listed_name P (world s) (cwd s) (repo_url r) = Inr []
               \<and> create_remote_name U r = Inl e)"
    proof (cases "listed_name P (world s) (cwd s) (repo_url r)")
      case (Inl e)
      then show ?thesis by simp
    next
      case (Inr n)
      with nl have n: "n = []" by (simp add: url_listed_def)
      show ?thesis
      proof (cases "create_remote_name U r")
        case (Inl e)
        with Inr n show ?thesis by simp
      next
        case c: (Inr m)
        with Inr n add_when_created [of P s r U m v] na show ?thesis
          by (simp add: list_ex_iff)
      qed
    qed
    then obtain e where ab: "listed_name P (world s) (cwd s) (repo_url r) = Inl e
           \<or> (listed_name P (world s) (cwd s) (repo_url r) = Inr []
               \<and> create_remote_name U r = Inl e)" by blast
    then have s1: "?s1 = s\<lparr>issued := issued s @ [cmd_remote_verbose]\<rparr>"
      using abort_before_add [of P s r e U v] by simp
    then have "world ?s1 = world s" "cwd ?s1 = cwd s" by simp_all
    with ab have "listed_name P (world ?s1) (cwd ?s1) (repo_url r) = Inl e
           \<or> (listed_name P (world ?s1) (cwd ?s1) (repo_url r) = Inr []
               \<and> create_remote_name U r = Inl e)" by simp
    then have "checkout_external_ref P U r v ?s1
        = (Inl e, ?s1\<lparr>issued := issued ?s1 @ [cmd_remote_verbose]\<rparr>)"
      by (rule abort_before_add)
    then show ?thesis by (simp add: issued_since_def is_remote_add_simps)
  qed
qed

text \<open>
  What \<open>_checkout_external_ref\<close> does with the listing of \<open>git remote --verbose\<close> as
  \<open>_determine_remote_name\<close> reads it: the first two tokens of each line that is not
  blank. When a line shows the declared URL as its second token, the name on the first
  such line is reused, the world is left as it is and no \<open>git remote add\<close> runs. When no
  line does, the synthesized name is registered with exactly one
  \<open>git remote add name url\<close>. For two invocations in a row: if the listing after the first
  one shows the URL whenever the first one found or registered it, the second one
  registers nothing.
\<close>

lemma remote_binding_reused:
  "(\<forall>n. listed_name P (world s) (cwd s) (repo_url r) = Inr n \<and> n \<noteq> [] \<longrightarrow>
       (\<exists>l\<in>set (splitlines (snd (query P (world s) (cwd s) cmd_remote_verbose))).
          \<exists>rest. py_split (py_strip l) = n # repo_url r # rest)
       \<and> find_or_create_remote P U r s
           = (Inr n, s\<lparr>issued := issued s @ [cmd_remote_verbose]\<rparr>)
       \<and> filter is_remote_add (issued_since s (snd (checkout_external_ref P U r v s))) = [])
   \<and> (listed_name P (world s) (cwd s) (repo_url r) = Inr [] \<longrightarrow>
       (\<forall>l\<in>set (splitlines (snd (query P (world s) (cwd s) cmd_remote_verbose))).
          \<forall>nm u rest. py_split (py_strip l) = nm # u # rest \<longrightarrow> u \<noteq> repo_url r)
       \<and> (\<forall>m. create_remote_name U r = Inr m \<longrightarrow>
             find_or_create_remote P U r s
               = (Inr m,
                  s\<lparr>world := effect P (world s) (cwd s) (cmd_remote_add m (repo_url r)),
                    issued := issued s @ [cmd_remote_verbose, cmd_remote_add m (repo_url r)]\<rparr>)
             \<and> filter is_remote_add (issued_since s (snd (checkout_external_ref P U r v s)))
                 = [cmd_remote_add m (repo_url r)]))
   \<and> (list_ex is_remote_add (issued_since s (snd (checkout_external_ref P U r v s))) \<longrightarrow>
         listed_name P (world s) (cwd s) (repo_url r) = Inr [])
   \<and> ((url_listed P (world s) (cwd s) (repo_url r)
          \<or> list_ex is_remote_add (issued_since s (snd (checkout_external_ref P U r v s)))
        \<longrightarrow> url_listed P (world (snd (checkout_external_ref P U r v s)))
              (cwd (snd (checkout_external_ref P U r v s))) (repo_url r))
       \<longrightarrow> filter is_remote_add
             (issued_since (snd (checkout_external_ref P U r v s))
                (snd (checkout_external_ref P U r v (snd (checkout_external_ref P U r v s)))))
           = [])"
proof -
  have a: "\<forall>n. listed_name P (world s) (cwd s) (repo_url r) = Inr n \<and> n \<noteq> [] \<longrightarrow>
       (\<exists>l\<in>set (splitlines (snd (query P (world s) (cwd s) cmd_remote_verbose))).
          \<exists>rest. py_split (py_strip l) = n # repo_url r # rest)
       \<and> find_or_create_remote P U r s
           = (Inr n, s\<lparr>issued := issued s @ [cmd_remote_verbose]\<rparr>)
       \<and> filter is_remote_add (issued_since s (snd (checkout_external_ref P U r v s))) = []"
    using determine_loop_found [of "repo_url r"
            "splitlines (snd (query P (world s) (cwd s) cmd_remote_verbose))"]
          no_add_when_listed [of P s r _ U v]
    by (auto simp: find_or_create_remote_eq listed_name_def)
  have b: "listed_name P (world s) (cwd s) (repo_url r) = Inr [] \<longrightarrow>
       (\<forall>l\<in>set (splitlines (snd (query P (world s) (cwd s) cmd_remote_verbose))).
          \<forall>nm u rest. py_split (py_strip l) = nm # u # rest \<longrightarrow> u \<noteq> repo_url r)"
    using determine_loop_none [of "repo_url r"
            "splitlines (snd (query P (world s) (cwd s) cmd_remote_verbose))"]
    by (simp add: listed_name_def)
  have c: "listed_name P (world s) (cwd s) (repo_url r) = Inr [] \<longrightarrow>
       (\<forall>m. create_remote_name U r = Inr m \<longrightarrow>
             find_or_create_remote P U r s
               = (Inr m,
                  s\<lparr>world := effect P (world s) (cwd s) (cmd_remote_add m (repo_url r)),
                    issued := issued s @ [cmd_remote_verbose, cmd_remote_add m (repo_url r)]\<rparr>)
             \<and> filter is_remote_add (issued_since s (snd (checkout_external_ref P U r v s)))
                 = [cmd_remote_add m (repo_url r)])"
    using add_when_created [of P s r U _ v]
    by (auto simp: find_or_create_remote_eq)
  have d: "list_ex is_remote_add (issued_since s (snd (checkout_external_ref P U r v s))) \<longrightarrow>
         listed_name P (world s) (cwd s) (repo_url r) = Inr []"
    using add_only_when_unlisted [of s P U r v] by blast
  have e: "(url_listed P (world s) (cwd s) (repo_url r)
          \<or> list_ex is_remote_add (issued_since s (snd (checkout_external_ref P U r v s)))
        \<longrightarrow> url_listed P (world (snd (checkout_external_ref P U r v s)))
              (cwd (snd (checkout_external_ref P U r v s))) (repo_url r))
       \<longrightarrow> filter is_remote_add
             (issued_since (snd (checkout_external_ref P U r v s))
                (snd (checkout_external_ref P U r v (snd (checkout_external_ref P U r v s)))))
           = []"
    using second_run_adds_nothing [of P s r U v] by blast
  from a b c d e show ?thesis by blast
qed

lemma remote_binding_reused_example:
  "listed_name example_port (world example_state) (cwd example_state)
      ''https://example/repo.git'' = Inr ''origin''
   \<and> find_or_create_remote example_port example_utils
        (branch_repo ''https://example/repo.git'' ''feature2'') example_state
      = (Inr ''origin'', example_state\<lparr>issued := issued example_state @ [cmd_remote_verbose]\<rparr>)
   \<and> listed_name example_port (world example_state) (cwd example_state)
        ''https://example/other.git'' = Inr []
   \<and> create_remote_name example_utils (branch_repo ''https://example/other.git'' ''master'')
      = Inr ''example_other.git''
   \<and> filter is_remote_add
        (issued_since example_state
           (snd (checkout_external_ref example_port example_utils
                   (branch_repo ''https://example/other.git'' ''master'') 0 example_state)))
      = [cmd_remote_add ''example_other.git'' ''https://example/other.git'']
   \<and> url_listed example_port
        (world (snd (checkout_external_ref example_port example_utils
                   (branch_repo ''https://example/other.git'' ''master'') 0 example_state)))
        (cwd (snd (checkout_external_ref example_port example_utils
                   (branch_repo ''https://example/other.git'' ''master'') 0 example_state)))
        ''https://example/other.git''
   \<and> filter is_remote_add
        (issued_since
           (snd (checkout_external_ref example_port example_utils
                   (branch_repo ''https://example/other.git'' ''master'') 0 example_state))
           (snd (checkout_external_ref example_port example_utils
                   (branch_repo ''https://example/other.git'' ''master'') 0
                   (snd (checkout_external_ref example_port example_utils
                           (branch_repo ''https://example/other.git'' ''master'') 0
                           example_state)))))
      = []"
proof -
  have u: "\<And>x b. repo_url (branch_repo x b) = x"
    by (simp add: branch_repo_def)
  have a: "listed_name example_port (world example_state) (cwd example_state)
      ''https://example/repo.git'' = Inr ''origin''"
    by code_simp
  have b: "listed_name example_port (world example_state) (cwd example_state)
        ''https://example/other.git'' = Inr []"
    by code_simp
  have c: "create_remote_name example_utils (branch_repo ''https://example/other.git'' ''master'')
      = Inr ''example_other.git''"
    by code_simp
  have d: "url_listed example_port
        (world (snd (checkout_external_ref example_port example_utils
                   (branch_repo ''https://example/other.git'' ''master'') 0 example_state)))
        (cwd (snd (checkout_external_ref example_port example_utils
                   (branch_repo ''https://example/other.git'' ''master'') 0 example_state)))
        ''https://example/other.git''"
    by code_simp
  from remote_binding_reused [of example_port example_state
         "branch_repo ''https://example/repo.git'' ''feature2''" example_utils 0]
       remote_binding_reused [of example_port example_state
         "branch_repo ''https://example/other.git'' ''master''" example_utils 0]
       a b c d
  show ?thesis by (simp add: u)
qed

text \<open>
  Claim C6. The claim fails for a declared URL that contains whitespace. The working copy
  has the binding \<open>local\<close> with the URL \<open>/my repos/proj/foo\<close>, and the declaration has
  this URL. \<open>git remote --verbose\<close> prints the line
  \<open>local<TAB>/my repos/proj/foo (fetch)\<close>; \<open>_determine_remote_name\<close> splits it at
  whitespace and compares the declared URL with the second token \<open>/my\<close>, so the binding
  is not found, the name \<open>proj_foo\<close> is synthesized and \<open>git remote add\<close> is run. The next
  invocation does not find the binding either and registers the URL once more.
\<close>

theorem binding_with_space_not_reused:
  "w_remotes spaced_world = [(''local'', ''/my repos/proj/foo'')]
   \<and> snd (query example_port spaced_world ''/work/repo'' cmd_remote_verbose)
       = remote_line (''local'', ''/my repos/proj/foo'')
   \<and> listed_name example_port spaced_world ''/work/repo'' ''/my repos/proj/foo'' = Inr []
   \<and> fst (find_or_create_remote example_port example_utils
            (branch_repo ''/my repos/proj/foo'' ''master'')
            (example_state\<lparr>cwd := ''/work/repo'', world := spaced_world\<rparr>)) = Inr ''proj_foo''
   \<and> issued (snd (find_or_create_remote example_port example_utils
            (branch_repo ''/my repos/proj/foo'' ''master'')
            (example_state\<lparr>cwd := ''/work/repo'', world := spaced_world\<rparr>)))
       = [cmd_remote_verbose, cmd_remote_add ''proj_foo'' ''/my repos/proj/foo'']
   \<and> w_remotes (world (snd (checkout_external_ref example_port example_utils
            (branch_repo ''/my repos/proj/foo'' ''master'') 0
            (snd (checkout_external_ref example_port example_utils
                    (branch_repo ''/my repos/proj/foo'' ''master'') 0
                    (example_state\<lparr>cwd := ''/work/repo'', world := spaced_world\<rparr>))))))
       = [(''local'', ''/my repos/proj/foo''), (''proj_foo'', ''/my repos/proj/foo''),
          (''proj_foo'', ''/my repos/proj/foo'')]"
  by code_simp

section \<open>The working directory on every exit path\<close>

lemma evaluate_sync_cwd: "cwd (evaluate_sync P c e s) = cwd s"
  by (simp add: evaluate_sync_def set_sync_state_def git_revparse_commit_eq)

lemma expected_ref_of_cwd: "expected_ref_of P U r s = (res, s') \<Longrightarrow> cwd s' = cwd s"
  using expected_ref_of_frame [of P U r s] by simp

lemma check_sync_logic_abort:
  assumes "fst (check_sync_logic P U r p s) = Inl e"
  shows "cwd (snd (check_sync_logic P U r p s))
           = (if is_dir P (world s) (cwd s) p then p else cwd s)"
proof (cases "is_dir P (world s) (cwd s) p")
  case False
  then show ?thesis by (simp add: check_sync_logic_def chdir_def seq_def)
next
  case True
  let ?s2 = "s\<lparr>cwd := p, issued := issued s @ [cmd_log_hash]\<rparr>"
  obtain res3 s3 where e3: "expected_ref_of P U r ?s2 = (res3, s3)"
    by (cases "expected_ref_of P U r ?s2")
  then have c3: "cwd s3 = p" using expected_ref_of_cwd [OF e3] by simp
  show ?thesis
    using assms True e3 c3
    by (auto simp: check_sync_logic_def chdir_def seq_def Let_def git_log_hash_eq
          current_ref_eq evaluate_sync_cwd split: sum.splits)
qed

lemma status_summary_abort:
  "fst (status_summary P p s) = Inl e \<Longrightarrow>
   cwd (snd (status_summary P p s)) = (if is_dir P (world s) (cwd s) p then p else cwd s)"
  by (auto simp: status_summary_eq chdir_def split: if_splits)

lemma checkout_local_ref_cwd: "cwd (snd (checkout_local_ref P r v s)) = cwd s"
  by (simp add: checkout_local_ref_def seq_def Let_def check_for_valid_ref_eq
        git_checkout_ref_def execute_effect_def)

lemma checkout_external_ref_cwd: "cwd (snd (checkout_external_ref P U r v s)) = cwd s"
  by (simp add: checkout_external_ref_def find_or_create_remote_eq seq_def Let_def
        check_for_valid_ref_eq git_fetch_def git_checkout_ref_def execute_effect_def
        split: sum.splits)

lemma checkout_ref_abort:
  assumes "fst (checkout_ref P U r p v s) = Inl e"
  shows "cwd (snd (checkout_ref P U r p v s))
           = (if is_dir P (world s) (cwd s) p then p else cwd s)"
proof (cases "is_dir P (world s) (cwd s) p")
  case False
  then show ?thesis by (simp add: checkout_ref_def chdir_def seq_def)
next
  case True
  let ?s1 = "s\<lparr>cwd := p\<rparr>"
  let ?body = "if py_strip (repo_url r) = LOCAL_PATH_INDICATOR U
               then checkout_local_ref P r v ?s1 else checkout_external_ref P U r v ?s1"
  obtain res s2 where b: "?body = (res, s2)" by (cases ?body)
  have "cwd (snd ?body) = p"
    by (simp add: checkout_local_ref_cwd checkout_external_ref_cwd)
  with b have c2: "cwd s2 = p" by simp
  have "checkout_ref P U r p v s =
          (case res of Inl e \<Rightarrow> (Inl e, s2) | Inr u \<Rightarrow> chdir P (cwd s) s2)"
    using True b by (simp add: checkout_ref_def chdir_def seq_def Let_def split: sum.splits)
  then show ?thesis
    using assms True c2 by (auto simp: chdir_def split: sum.splits if_splits)
qed

lemma clone_repo_abort:
  "fst (clone_repo P r b n v s) = Inl e \<Longrightarrow>
   cwd (snd (clone_repo P r b n v s)) = (if is_dir P (world s) (cwd s) b then b else cwd s)"
  by (auto simp: clone_repo_def seq_def chdir_def Let_def git_clone_def execute_effect_def
        split: if_splits)

text \<open>
  Claim C2, as amended. Whenever one of the operation sequences returns normally, the
  working directory is the one from before the call. Whenever it aborts, the working
  directory is left as the abort found it: the target directory if the switch into it
  had been made, the directory from before the call if the switch itself failed. This
  holds for \<open>_check_sync_logic\<close>, \<open>_status_summary\<close>, \<open>_checkout_ref\<close> and \<open>_clone_repo\<close>;
  \<open>_check_sync\<close>, \<open>status\<close> and \<open>checkout\<close>, built from them, restore the directory
  whenever they return normally.
\<close>

theorem cwd_restored_on_return:
  "(fst (check_sync_logic P U r p s) = Inr () \<longrightarrow>
      cwd (snd (check_sync_logic P U r p s)) = cwd s)
   \<and> (\<forall>e. fst (check_sync_logic P U r p s) = Inl e \<longrightarrow>
        cwd (snd (check_sync_logic P U r p s))
          = (if is_dir P (world s) (cwd s) p then p else cwd s))
   \<and> (fst (status_summary P p s) = Inr () \<longrightarrow> cwd (snd (status_summary P p s)) = cwd s)
   \<and> (\<forall>e. fst (status_summary P p s) = Inl e \<longrightarrow>
        cwd (snd (status_summary P p s)) = (if is_dir P (world s) (cwd s) p then p else cwd s))
   \<and> (fst (checkout_ref P U r p v s) = Inr () \<longrightarrow>
        cwd (snd (checkout_ref P U r p v s)) = cwd s)
   \<and> (\<forall>e. fst (checkout_ref P U r p v s) = Inl e \<longrightarrow>
        cwd (snd (checkout_ref P U r p v s))
          = (if is_dir P (world s) (cwd s) p then p else cwd s))
   \<and> (fst (clone_repo P r b n v s) = Inr () \<longrightarrow> cwd (snd (clone_repo P r b n v s)) = cwd s)
   \<and> (\<forall>e. fst (clone_repo P r b n v s) = Inl e \<longrightarrow>
        cwd (snd (clone_repo P r b n v s)) = (if is_dir P (world s) (cwd s) b then b else cwd s))
   \<and> (fst (check_sync P U r p s) = Inr () \<longrightarrow> cwd (snd (check_sync P U r p s)) = cwd s)
   \<and> (fst (status P U r p s) = Inr () \<longrightarrow> cwd (snd (status P U r p s)) = cwd s)
   \<and> (fst (checkout P U r b n v s) = Inr () \<longrightarrow> cwd (snd (checkout P U r b n v s)) = cwd s)"
  using check_sync_logic_cwd [of P U r p s] status_summary_cwd [of P p s]
    checkout_ref_cwd [of P U r p v s] clone_repo_cwd [of P r b n v s]
    check_sync_cwd [of P U r p s] status_cwd [of P U r p s] checkout_cwd [of P U r b n v s]
    check_sync_logic_abort [of P U r p s] status_summary_abort [of P p s]
    checkout_ref_abort [of P U r p v s] clone_repo_abort [of P r b n v s]
  by blast

theorem cwd_restored_on_return_witness:
  "fst (check_sync_logic example_port example_utils
          (branch_repo ''https://example/repo.git'' ''master'') ''/work/repo'' example_state)
     = Inr ()
   \<and> cwd (snd (check_sync_logic example_port example_utils
          (branch_repo ''https://example/repo.git'' ''master'') ''/work/repo'' example_state))
     = cwd example_state
   \<and> fst (check_sync_logic example_port example_utils empty_repo ''/work/repo'' example_state)
     = Inl (Fatal (msg_none_set empty_repo))
   \<and> is_dir example_port (world example_state) (cwd example_state) ''/work/repo''
   \<and> cwd (snd (check_sync_logic example_port example_utils empty_repo ''/work/repo''
                 example_state)) = ''/work/repo''
   \<and> fst (checkout_ref example_port example_utils
          (branch_repo ''https://example/repo.git'' ''feature2'') ''/work/repo'' 0 example_state)
     = Inr ()
   \<and> cwd (snd (checkout_ref example_port example_utils
          (branch_repo ''https://example/repo.git'' ''feature2'') ''/work/repo'' 0 example_state))
     = cwd example_state"
proof -
  have a: "fst (check_sync_logic example_port example_utils
          (branch_repo ''https://example/repo.git'' ''master'') ''/work/repo'' example_state)
     = Inr ()"
    by code_simp
  have b: "fst (checkout_ref example_port example_utils
          (branch_repo ''https://example/repo.git'' ''feature2'') ''/work/repo'' 0 example_state)
     = Inr ()"
    by code_simp
  have c: "fst (check_sync_logic example_port example_utils empty_repo ''/work/repo'' example_state)
     = Inl (Fatal (msg_none_set empty_repo))"
    by code_simp
  have d: "is_dir example_port (world example_state) (cwd example_state) ''/work/repo''"
    by code_simp
  from cwd_restored_on_return [of example_port example_utils
         "branch_repo ''https://example/repo.git'' ''master''" "''/work/repo''" example_state]
       cwd_restored_on_return [of example_port example_utils
         "branch_repo ''https://example/repo.git'' ''feature2''" "''/work/repo''" example_state 0]
       cwd_restored_on_return [of example_port example_utils empty_repo "''/work/repo''"
         example_state]
       a b c d
  show ?thesis by simp
qed

end
